theory Spec2Isabelle
  imports Complex_Main
begin

section \<open>Python values\<close>

text \<open>
  The values that \<open>yaml.safe_load\<close> and \<open>json.loads\<close> hand to the program: None,
  booleans, unbounded integers, floats, strings, lists and dictionaries. A string is a
  list of 8-bit characters, read as the code points below 256. A dictionary is the list
  of its items in insertion order. A finite float \<open>Fin neg m e\<close> is the number
  \<open>m * 2 ^ e\<close> with the sign \<open>neg\<close>, so that the negative zero is a value of its own.
\<close>

datatype pyfloat = Fin bool nat int | Infinity bool | NaN

datatype pyval =
    PNone
  | PBool bool
  | PInt int
  | PFloat pyfloat
  | PStr string
  | PList "pyval list"
  | PDict "(pyval \<times> pyval) list"

text \<open>
  An exception is its class and the text that \<open>str(e)\<close> gives. The texts of the
  exceptions the interpreter raises are those of CPython 3.12.
\<close>

datatype exc_kind =
    KeyError | IndexError | TypeError | ValueError | OverflowError | AttributeError
  | UnboundLocalError | CalledProcessError | FileNotFoundError | OtherException

datatype py_exc = Exc exc_kind string

fun exc_str :: "py_exc \<Rightarrow> string" where
  "exc_str (Exc k msg) = msg"

fun exc_kind_of :: "py_exc \<Rightarrow> exc_kind" where
  "exc_kind_of (Exc k msg) = k"

definition type_name :: "pyval \<Rightarrow> string" where
  "type_name v =
     (case v of
        PNone \<Rightarrow> ''NoneType''
      | PBool b \<Rightarrow> ''bool''
      | PInt i \<Rightarrow> ''int''
      | PFloat f \<Rightarrow> ''float''
      | PStr s \<Rightarrow> ''str''
      | PList xs \<Rightarrow> ''list''
      | PDict d \<Rightarrow> ''dict'')"

definition quoted :: "string \<Rightarrow> string" where
  \<comment> \<open>\<open>repr\<close> of a string that holds no quote, backslash or control character\<close>
  "quoted s = [CHR 0x27] @ s @ [CHR 0x27]"

subsection \<open>Subscripting, membership, truth\<close>

fun dict_get_str :: "(pyval \<times> pyval) list \<Rightarrow> string \<Rightarrow> pyval option" where
  "dict_get_str [] k = None"
| "dict_get_str ((k', v) # d) k = (if k' = PStr k then Some v else dict_get_str d k)"

definition is_zero_key :: "pyval \<Rightarrow> bool" where
  \<comment> \<open>the keys equal to the integer 0: \<open>0\<close>, \<open>False\<close>, \<open>0.0\<close> and \<open>-0.0\<close>\<close>
  "is_zero_key k =
     (case k of
        PInt i \<Rightarrow> i = 0
      | PBool b \<Rightarrow> \<not> b
      | PFloat f \<Rightarrow> (case f of Fin neg m e \<Rightarrow> m = 0 | _ \<Rightarrow> False)
      | _ \<Rightarrow> False)"

fun dict_get_0 :: "(pyval \<times> pyval) list \<Rightarrow> pyval option" where
  "dict_get_0 [] = None"
| "dict_get_0 ((k', v) # d) = (if is_zero_key k' then Some v else dict_get_0 d)"

definition py_getitem_str :: "pyval \<Rightarrow> string \<Rightarrow> py_exc + pyval" where
  \<comment> \<open>\<open>obj[k]\<close> for a string literal \<open>k\<close> of the source\<close>
  "py_getitem_str obj k =
     (case obj of
        PDict d \<Rightarrow>
          (case dict_get_str d k of
             None \<Rightarrow> Inl (Exc KeyError (quoted k))
           | Some v \<Rightarrow> Inr v)
      | PList xs \<Rightarrow> Inl (Exc TypeError ''list indices must be integers or slices, not str'')
      | PStr s \<Rightarrow> Inl (Exc TypeError (''string indices must be integers, not '' @ quoted ''str''))
      | _ \<Rightarrow> Inl (Exc TypeError (quoted (type_name obj) @ '' object is not subscriptable'')))"

definition py_getitem_0 :: "pyval \<Rightarrow> py_exc + pyval" where
  \<comment> \<open>\<open>obj[0]\<close>\<close>
  "py_getitem_0 obj =
     (case obj of
        PList xs \<Rightarrow>
          (case xs of
             [] \<Rightarrow> Inl (Exc IndexError ''list index out of range'')
           | x # _ \<Rightarrow> Inr x)
      | PStr s \<Rightarrow>
          (case s of
             [] \<Rightarrow> Inl (Exc IndexError ''string index out of range'')
           | c # _ \<Rightarrow> Inr (PStr [c]))
      | PDict d \<Rightarrow>
          (case dict_get_0 d of
             None \<Rightarrow> Inl (Exc KeyError ''0'')
           | Some v \<Rightarrow> Inr v)
      | _ \<Rightarrow> Inl (Exc TypeError (quoted (type_name obj) @ '' object is not subscriptable'')))"

fun is_substring :: "string \<Rightarrow> string \<Rightarrow> bool" where
  "is_substring k [] = (k = [])"
| "is_substring k (c # s) = (take (length k) (c # s) = k \<or> is_substring k s)"

definition py_contains_str :: "string \<Rightarrow> pyval \<Rightarrow> py_exc + bool" where
  \<comment> \<open>\<open>k in obj\<close> for a string literal \<open>k\<close> of the source\<close>
  "py_contains_str k obj =
     (case obj of
        PDict d \<Rightarrow> Inr (dict_get_str d k \<noteq> None)
      | PList xs \<Rightarrow> Inr (PStr k \<in> set xs)
      | PStr s \<Rightarrow> Inr (is_substring k s)
      | _ \<Rightarrow> Inl (Exc TypeError (''argument of type '' @ quoted (type_name obj) @ '' is not iterable'')))"

definition py_truthy :: "pyval \<Rightarrow> bool" where
  "py_truthy v =
     (case v of
        PNone \<Rightarrow> False
      | PBool b \<Rightarrow> b
      | PInt i \<Rightarrow> i \<noteq> 0
      | PFloat f \<Rightarrow> (case f of Fin neg m e \<Rightarrow> m \<noteq> 0 | _ \<Rightarrow> True)
      | PStr s \<Rightarrow> s \<noteq> []
      | PList xs \<Rightarrow> xs \<noteq> []
      | PDict d \<Rightarrow> d \<noteq> [])"

definition py_iter :: "pyval \<Rightarrow> py_exc + pyval list" where
  \<comment> \<open>the items a \<open>for\<close> loop over \<open>obj\<close> visits\<close>
  "py_iter obj =
     (case obj of
        PList xs \<Rightarrow> Inr xs
      | PStr s \<Rightarrow> Inr (map (\<lambda>c. PStr [c]) s)
      | PDict d \<Rightarrow> Inr (map fst d)
      | _ \<Rightarrow> Inl (Exc TypeError (quoted (type_name obj) @ '' object is not iterable'')))"

section \<open>Text and numbers\<close>

subsection \<open>Whitespace, decimal digits, repr\<close>

definition py_isspace :: "char \<Rightarrow> bool" where
  \<comment> \<open>\<open>str.isspace\<close> on the code points below 256: what \<open>str.strip()\<close> removes\<close>
  "py_isspace c =
     (let n = (of_char c :: nat)
      in (9 \<le> n \<and> n \<le> 13) \<or> (28 \<le> n \<and> n \<le> 32) \<or> n = 133 \<or> n = 160)"

definition py_strip :: "string \<Rightarrow> string" where
  "py_strip s = rev (dropWhile py_isspace (rev (dropWhile py_isspace s)))"

definition int_isspace :: "char \<Rightarrow> bool" where
  \<comment> \<open>the whitespace \<open>int()\<close> skips around a literal; the separators 28 to 31 are not in it\<close>
  "int_isspace c =
     (let n = (of_char c :: nat)
      in (9 \<le> n \<and> n \<le> 13) \<or> n = 32 \<or> n = 133 \<or> n = 160)"

definition is_digit :: "char \<Rightarrow> bool" where
  "is_digit c = (let n = (of_char c :: nat) in 48 \<le> n \<and> n \<le> 57)"

definition digit_val :: "char \<Rightarrow> nat" where
  "digit_val c = of_char c - 48"

definition digit_char :: "nat \<Rightarrow> char" where
  "digit_char d = ''0123456789'' ! (d mod 10)"

definition digits_value :: "string \<Rightarrow> nat" where
  "digits_value ds = foldl (\<lambda>acc c. 10 * acc + digit_val c) 0 ds"

fun dec_of_nat :: "nat \<Rightarrow> string" where
  "dec_of_nat n = (if n < 10 then [digit_char n] else dec_of_nat (n div 10) @ [digit_char (n mod 10)])"

declare dec_of_nat.simps [simp del]

definition hex_char :: "nat \<Rightarrow> char" where
  "hex_char d = ''0123456789abcdef'' ! (d mod 16)"

definition py_isprintable :: "char \<Rightarrow> bool" where
  \<comment> \<open>the code points below 256 that \<open>repr\<close> writes as they are\<close>
  "py_isprintable c =
     (let n = (of_char c :: nat)
      in (32 \<le> n \<and> n < 127) \<or> (161 \<le> n \<and> n \<noteq> 173))"

definition repr_char :: "char \<Rightarrow> char \<Rightarrow> string" where
  "repr_char q c =
     (if c = q \<or> c = CHR 0x5C then [CHR 0x5C, c]
      else if c = CHR 0x09 then [CHR 0x5C, CHR ''t'']
      else if c = CHR 0x0A then [CHR 0x5C, CHR ''n'']
      else if c = CHR 0x0D then [CHR 0x5C, CHR ''r'']
      else if py_isprintable c then [c]
      else [CHR 0x5C, CHR ''x'', hex_char (of_char c div 16), hex_char (of_char c mod 16)])"

definition py_repr :: "string \<Rightarrow> string" where
  \<comment> \<open>\<open>repr\<close> of a string: double quotes when it holds a single quote and no double quote\<close>
  "py_repr s =
     (let q = (if CHR 0x27 \<in> set s \<and> CHR 0x22 \<notin> set s then CHR 0x22 else CHR 0x27)
      in [q] @ concat (map (repr_char q) s) @ [q])"

subsection \<open>int()\<close>

fun bad_underscores :: "string \<Rightarrow> bool" where
  \<comment> \<open>a run of digits and underscores that ends with an underscore or holds two in a row\<close>
  "bad_underscores [] = False"
| "bad_underscores [c] = (c = CHR ''_'')"
| "bad_underscores (c # d # s) =
     ((c = CHR ''_'' \<and> d = CHR ''_'') \<or> bad_underscores (d # s))"

definition invalid_literal :: "string \<Rightarrow> py_exc" where
  "invalid_literal s =
     Exc ValueError (''invalid literal for int() with base 10: '' @ take 200 (py_repr s))"

definition int_of_str :: "nat \<Rightarrow> string \<Rightarrow> py_exc + int" where
  \<comment> \<open>\<open>int(s)\<close> for a string: whitespace, a sign, digits with single underscores between
     them, whitespace; \<open>max_digits\<close> is the limit on the number of digits, 0 for none\<close>
  "int_of_str max_digits s =
     (let s1 = dropWhile int_isspace s;
          neg = (s1 \<noteq> [] \<and> hd s1 = CHR ''-'');
          s2 = (if s1 \<noteq> [] \<and> (hd s1 = CHR ''+'' \<or> hd s1 = CHR ''-'') then tl s1 else s1);
          body = takeWhile (\<lambda>c. is_digit c \<or> c = CHR ''_'') s2;
          rest = dropWhile (\<lambda>c. is_digit c \<or> c = CHR ''_'') s2;
          ds = filter is_digit body
      in if body \<noteq> [] \<and> (hd body = CHR ''_'' \<or> bad_underscores body) then Inl (invalid_literal s)
         else if 0 < max_digits \<and> max_digits < length ds
         then Inl (Exc ValueError
                (''Exceeds the limit ('' @ dec_of_nat max_digits @
                 '' digits) for integer string conversion: value has '' @ dec_of_nat (length ds) @
                 '' digits; use sys.set_int_max_str_digits() to increase the limit''))
         else if body = [] \<or> dropWhile int_isspace rest \<noteq> [] then Inl (invalid_literal s)
         else Inr (if neg then - int (digits_value ds) else int (digits_value ds)))"

definition py_int :: "nat \<Rightarrow> pyval \<Rightarrow> py_exc + int" where
  "py_int max_digits v =
     (case v of
        PInt i \<Rightarrow> Inr i
      | PBool b \<Rightarrow> Inr (if b then 1 else 0)
      | PStr s \<Rightarrow> int_of_str max_digits s
      | PFloat f \<Rightarrow>
          (case f of
             NaN \<Rightarrow> Inl (Exc ValueError ''cannot convert float NaN to integer'')
           | Infinity neg \<Rightarrow> Inl (Exc OverflowError ''cannot convert float infinity to integer'')
           | Fin neg m e \<Rightarrow>
               (let t = (if 0 \<le> e then int m * 2 ^ nat e else int m div 2 ^ nat (- e))
                in Inr (if neg then - t else t)))
      | _ \<Rightarrow> Inl (Exc TypeError
               (''int() argument must be a string, a bytes-like object or a real number, not '' @
                quoted (type_name v))))"

subsection \<open>Floats: division, round, format\<close>

text \<open>
  A float is an IEEE 754 binary64 number, and the three operations of the stake column
  are correctly rounded in CPython: \<open>n / 1_000_000\<close> is the float nearest to the
  quotient, \<open>round(x, 2)\<close> is the float nearest to the multiple of 0.01 that is nearest
  to \<open>x\<close>, and the format \<open>.2f\<close> writes the multiple of 0.01 nearest to the float.
  Both halves go to the even neighbour.
\<close>

fun bit_length :: "nat \<Rightarrow> nat" where
  "bit_length n = (if n = 0 then 0 else Suc (bit_length (n div 2)))"

declare bit_length.simps [simp del]

definition rne_div :: "nat \<Rightarrow> nat \<Rightarrow> nat" where
  \<comment> \<open>the integer nearest to \<open>a / b\<close>, the even one of two\<close>
  "rne_div a b =
     (let d = a div b; r = a mod b
      in if 2 * r < b then d
         else if b < 2 * r then d + 1
         else if even d then d else d + 1)"

definition nearest_binary64 :: "nat \<Rightarrow> nat \<Rightarrow> (nat \<times> int) option" where
  \<comment> \<open>the binary64 number \<open>m * 2 ^ s\<close> nearest to \<open>p / q\<close>, for positive \<open>p\<close> and \<open>q\<close>;
     \<open>None\<close> when it would be \<open>2 ^ 1024\<close> or more\<close>
  "nearest_binary64 p q =
     (let e0 = int (bit_length p) - int (bit_length q);
          e = (if p * 2 ^ nat (- e0) < q * 2 ^ nat e0 then e0 - 1 else e0);
          s = max e (- 1022) - 52;
          m = rne_div (p * 2 ^ nat (- s)) (q * 2 ^ nat s)
      in if 971 < s \<or> (s = 971 \<and> 2 ^ 53 \<le> m) then None else Some (m, s))"

definition int_true_div :: "int \<Rightarrow> nat \<Rightarrow> py_exc + pyfloat" where
  \<comment> \<open>\<open>a / b\<close> for an integer \<open>a\<close> and a positive integer \<open>b\<close>\<close>
  "int_true_div a b =
     (if a = 0 then Inr (Fin False 0 0)
      else case nearest_binary64 (nat \<bar>a\<bar>) b of
             None \<Rightarrow> Inl (Exc OverflowError ''integer division result too large for a float'')
           | Some (m, s) \<Rightarrow> Inr (Fin (a < 0) m s))"

definition hundredths :: "nat \<Rightarrow> int \<Rightarrow> nat" where
  \<comment> \<open>the integer nearest to \<open>100 * m * 2 ^ e\<close>, the even one of two\<close>
  "hundredths m e = rne_div (100 * m * 2 ^ nat e) (2 ^ nat (- e))"

definition float_round2 :: "pyfloat \<Rightarrow> py_exc + pyfloat" where
  \<comment> \<open>\<open>round(x, 2)\<close>\<close>
  "float_round2 x =
     (case x of
        Fin neg m e \<Rightarrow>
          (let k = hundredths m e
           in if k = 0 then Inr (Fin neg 0 0)
              else case nearest_binary64 k 100 of
                     None \<Rightarrow> Inl (Exc OverflowError ''rounded value too large to represent in float'')
                   | Some (m', s') \<Rightarrow> Inr (Fin neg m' s'))
      | _ \<Rightarrow> Inr x)"

definition two_digits :: "nat \<Rightarrow> string" where
  "two_digits k = [digit_char (k div 10 mod 10), digit_char (k mod 10)]"

definition format_2f :: "pyfloat \<Rightarrow> string" where
  \<comment> \<open>\<open>f"{x:.2f}"\<close>\<close>
  "format_2f x =
     (case x of
        Fin neg m e \<Rightarrow>
          (let k = hundredths m e
           in (if neg then ''-'' else []) @ dec_of_nat (k div 100) @ ''.'' @ two_digits k)
      | Infinity neg \<Rightarrow> (if neg then ''-inf'' else ''inf'')
      | NaN \<Rightarrow> ''nan'')"

section \<open>The world outside the program\<close>

text \<open>
  The program reads a file, parses YAML and JSON with library parsers and runs the
  \<open>pocketd\<close> client. These are parameters of the model. \<open>subprocess_run\<close> takes the
  state \<open>'w\<close> of the outside world and the argument vector; it gives the standard output
  of a run that exits with code 0, or the exception \<open>subprocess.run(..., check=True)\<close>
  raises (of class \<open>CalledProcessError\<close> for another exit code), and the world after
  the run. \<open>int_max_str_digits\<close> is the interpreter's limit on the digits of an integer
  string, 0 for none. What \<open>print\<close> writes is not part of the model.
\<close>

record 'w env =
  read_file :: "string \<Rightarrow> py_exc + string"
  yaml_safe_load :: "string \<Rightarrow> py_exc + pyval"
  subprocess_run :: "'w \<Rightarrow> pyval list \<Rightarrow> (py_exc + string) \<times> 'w"
  json_loads :: "string \<Rightarrow> py_exc + pyval"
  int_max_str_digits :: nat

section \<open>pocket.py\<close>

definition load_config :: "'w env \<Rightarrow> string \<Rightarrow> py_exc + pyval" where
  \<comment> \<open>the handler prints and re-raises, so every exception of the body leaves the function\<close>
  "load_config E path =
     (case read_file E path of
        Inl e \<Rightarrow> Inl e
      | Inr raw \<Rightarrow>
          (case yaml_safe_load E raw of
             Inl e \<Rightarrow> Inl e
           | Inr config \<Rightarrow>
               (case config of
                  PDict d \<Rightarrow> py_getitem_str config ''config''
                | _ \<Rightarrow> Inl (Exc AttributeError
                     (quoted (type_name config) @ '' object has no attribute '' @ quoted ''keys'')))))"

definition query_application_handler :: "py_exc \<Rightarrow> bool \<Rightarrow> py_exc + pyval" where
  \<comment> \<open>the two \<open>except\<close> clauses, for an exception of the \<open>try\<close> body; \<open>bound\<close> says
     whether \<open>result\<close> was assigned before it was raised\<close>
  "query_application_handler e bound =
     (if exc_kind_of e = CalledProcessError
      then Inr (PDict [(PStr ''error'', PStr (''Subprocess failed: '' @ exc_str e))])
      else if bound
      then Inr (PDict [(PStr ''error'', PStr ''Parse failure'')])
      else Inl (Exc UnboundLocalError
             (''cannot access local variable '' @ quoted ''result'' @
              '' where it is not associated with a value'')))"

definition query_cmd :: "pyval \<Rightarrow> pyval \<Rightarrow> pyval list" where
  \<comment> \<open>the argument vector \<open>query_application\<close> builds\<close>
  "query_cmd app_address rpc =
     [PStr ''pocketd'', PStr ''q'', PStr ''application'', PStr ''show-application'',
      app_address, PStr ''--node'', rpc, PStr ''--output'', PStr ''json'']"

definition query_application :: "'w env \<Rightarrow> 'w \<Rightarrow> pyval \<Rightarrow> pyval \<Rightarrow> (py_exc + pyval) \<times> 'w" where
  "query_application E w app_address rpc =
     (let (result, w') = subprocess_run E w (query_cmd app_address rpc)
      in case result of
           Inl e \<Rightarrow> (query_application_handler e False, w')
         | Inr stdout \<Rightarrow>
             (case json_loads E stdout of
                Inl e \<Rightarrow> (query_application_handler e True, w')
              | Inr parsed \<Rightarrow>
                  (case py_getitem_str parsed ''application'' of
                     Inl e \<Rightarrow> (query_application_handler e True, w')
                   | Inr application \<Rightarrow> (Inr application, w'))))"

text \<open>
  The second handler of \<open>query_application\<close> reads \<open>result.stdout\<close>. When
  \<open>subprocess.run\<close> itself raised, \<open>result\<close> was never assigned, and the handler
  raises \<open>UnboundLocalError\<close> in place of returning its dictionary.
\<close>

section \<open>app.py\<close>

text \<open>
  The fields of \<open>GASMSApp\<close> that the handlers read and write. An attribute that is not
  assigned yet is \<open>None\<close>; reading it raises \<open>AttributeError\<close>. The table is the list
  of its rows, a row the list of its cells. \<open>loading_screen\<close> says whether the splash is
  mounted, \<open>cmd_display\<close> whether the command input is shown, \<open>exited\<close> whether
  \<open>exit()\<close> was called on the application.
\<close>

record app_state =
  config :: "pyval option"
  rpc :: "pyval option"
  gateway :: "pyval option"
  table :: "pyval list list"
  loading_screen :: bool
  cmd_display :: bool
  exited :: bool

definition get_attr :: "string \<Rightarrow> 'a option \<Rightarrow> py_exc + 'a" where
  "get_attr name field =
     (case field of
        None \<Rightarrow> Inl (Exc AttributeError
                 (quoted ''GASMSApp'' @ '' object has no attribute '' @ quoted name))
      | Some v \<Rightarrow> Inr v)"

definition compose :: app_state where
  "compose =
     \<lparr>config = None, rpc = None, gateway = None, table = [],
      loading_screen = True, cmd_display = False, exited = False\<rparr>"

definition add_row :: "pyval list \<Rightarrow> app_state \<Rightarrow> app_state" where
  "add_row cells st = st\<lparr>table := table st @ [cells]\<rparr>"

definition on_mount :: "'w env \<Rightarrow> app_state \<Rightarrow> (py_exc + unit) \<times> app_state" where
  "on_mount E st =
     (case load_config E ''config.yaml'' of
        Inl e \<Rightarrow> (Inl e, st)
      | Inr c \<Rightarrow>
          (let st1 = st\<lparr>config := Some c\<rparr>
           in case py_getitem_str c ''rpc_endpoint'' of
                Inl e \<Rightarrow> (Inl e, st1)
              | Inr r \<Rightarrow>
                  (let st2 = st1\<lparr>rpc := Some r\<rparr>
                   in case py_getitem_str c ''gateways'' of
                        Inl e \<Rightarrow> (Inl e, st2)
                      | Inr gs \<Rightarrow>
                          (case py_getitem_0 gs of
                             Inl e \<Rightarrow> (Inl e, st2)
                           | Inr g \<Rightarrow> (Inr (), st2\<lparr>gateway := Some g\<rparr>)))))"

definition refresh_table_try :: "'w env \<Rightarrow> app_state \<Rightarrow> pyval \<Rightarrow> pyval \<Rightarrow> py_exc + pyval list" where
  \<comment> \<open>the body of the \<open>try\<close> of \<open>refresh_table\<close>: the cells it passes to \<open>add_row\<close>, or the
     exception it raises\<close>
  "refresh_table_try E st app data =
     (case py_getitem_str data ''stake'' of
        Inl e \<Rightarrow> Inl e
      | Inr stake \<Rightarrow>
     (case py_getitem_str stake ''amount'' of
        Inl e \<Rightarrow> Inl e
      | Inr amount \<Rightarrow>
     (case py_int (int_max_str_digits E) amount of
        Inl e \<Rightarrow> Inl e
      | Inr n \<Rightarrow>
     (case int_true_div n 1000000 of
        Inl e \<Rightarrow> Inl e
      | Inr ratio \<Rightarrow>
     (case float_round2 ratio of
        Inl e \<Rightarrow> Inl e
      | Inr stake_amt \<Rightarrow>
     (case py_getitem_str data ''service_configs'' of
        Inl e \<Rightarrow> Inl e
      | Inr service_configs \<Rightarrow>
     (case (if py_truthy service_configs
            then (case py_getitem_0 service_configs of
                    Inl e \<Rightarrow> Inl e
                  | Inr first \<Rightarrow> py_getitem_str first ''service_id'')
            else Inr (PStr ''-'')) of
        Inl e \<Rightarrow> Inl e
      | Inr service_id \<Rightarrow>
     (case get_attr ''gateway'' (gateway st) of
        Inl e \<Rightarrow> Inl e
      | Inr g \<Rightarrow> Inr [app, PStr (format_2f stake_amt), service_id, g]))))))))"

definition refresh_table_body :: "'w env \<Rightarrow> pyval \<Rightarrow> 'w \<Rightarrow> app_state \<Rightarrow> (py_exc + unit) \<times> 'w \<times> app_state" where
  \<comment> \<open>one round of the \<open>for\<close> loop of \<open>refresh_table\<close>\<close>
  "refresh_table_body E app w st =
     (case get_attr ''rpc'' (rpc st) of
        Inl e \<Rightarrow> (Inl e, w, st)
      | Inr r \<Rightarrow>
          (case query_application E w app r of
             (Inl e, w') \<Rightarrow> (Inl e, w', st)
           | (Inr data, w') \<Rightarrow>
               (case py_contains_str ''error'' data of
                  Inl e \<Rightarrow> (Inl e, w', st)
                | Inr True \<Rightarrow> (Inr (), w', add_row [app, PStr ''Error'', PStr ''-'', PStr ''-''] st)
                | Inr False \<Rightarrow>
                    (case refresh_table_try E st app data of
                       Inr cells \<Rightarrow> (Inr (), w', add_row cells st)
                     | Inl e \<Rightarrow>
                         (Inr (), w',
                          add_row [app, PStr (''ParseErr: '' @ exc_str e), PStr ''-'', PStr ''-''] st)))))"

fun refresh_table_loop :: "'w env \<Rightarrow> pyval list \<Rightarrow> 'w \<Rightarrow> app_state \<Rightarrow> (py_exc + unit) \<times> 'w \<times> app_state" where
  "refresh_table_loop E [] w st = (Inr (), w, st)"
| "refresh_table_loop E (app # apps) w st =
     (case refresh_table_body E app w st of
        (Inl e, w', st') \<Rightarrow> (Inl e, w', st')
      | (Inr u, w', st') \<Rightarrow> refresh_table_loop E apps w' st')"

definition refresh_table :: "'w env \<Rightarrow> 'w \<Rightarrow> app_state \<Rightarrow> (py_exc + unit) \<times> 'w \<times> app_state" where
  "refresh_table E w st =
     (let st1 = st\<lparr>table := []\<rparr>
      in case get_attr ''config'' (config st1) of
           Inl e \<Rightarrow> (Inl e, w, st1)
         | Inr c \<Rightarrow>
             (case py_getitem_str c ''applications'' of
                Inl e \<Rightarrow> (Inl e, w, st1)
              | Inr applications \<Rightarrow>
                  (case py_iter applications of
                     Inl e \<Rightarrow> (Inl e, w, st1)
                   | Inr apps \<Rightarrow> refresh_table_loop E apps w st1)))"

definition finish_boot :: "'w env \<Rightarrow> 'w \<Rightarrow> app_state \<Rightarrow> (py_exc + unit) \<times> 'w \<times> app_state" where
  "finish_boot E w st = refresh_table E w (st\<lparr>loading_screen := False\<rparr>)"

definition action_refresh :: "'w env \<Rightarrow> 'w \<Rightarrow> app_state \<Rightarrow> (py_exc + unit) \<times> 'w \<times> app_state" where
  "action_refresh E w st = refresh_table E w st"

definition boot :: "'w env \<Rightarrow> 'w \<Rightarrow> (py_exc + unit) \<times> 'w \<times> app_state" where
  \<comment> \<open>the start of the application: \<open>compose\<close>, \<open>on_mount\<close>, and the \<open>finish_boot\<close> that
     \<open>on_mount\<close> schedules with \<open>call_later\<close> as its last statement\<close>
  "boot E w =
     (case on_mount E compose of
        (Inl e, st) \<Rightarrow> (Inl e, w, st)
      | (Inr u, st) \<Rightarrow> finish_boot E w st)"

definition action_enter_command_mode :: "app_state \<Rightarrow> app_state" where
  "action_enter_command_mode st = st\<lparr>cmd_display := True\<rparr>"

definition on_input_submitted :: "string \<Rightarrow> app_state \<Rightarrow> app_state" where
  \<comment> \<open>\<open>self.refresh()\<close> asks the framework to repaint; it changes no field\<close>
  "on_input_submitted text st =
     (let cmd = py_strip text;
          st1 = st\<lparr>cmd_display := False\<rparr>
      in if cmd = ''q'' then st1\<lparr>exited := True\<rparr> else st1)"

definition on_input_blurred :: "app_state \<Rightarrow> app_state" where
  "on_input_blurred st = st\<lparr>cmd_display := False\<rparr>"

section \<open>A sample installation\<close>

text \<open>
  One configuration and one outside world, for the concrete runs below. The world counts
  the runs of the client. The node knows four applications: the query for \<open>app1\<close>
  succeeds with a stake of 2500000 and one service, the client exits with code 1 for
  \<open>app2\<close>, prints no JSON for \<open>app3\<close>, and prints a record without a stake for \<open>app4\<close>.
\<close>

definition demo_config :: pyval where
  "demo_config =
     PDict [(PStr ''rpc_endpoint'', PStr ''https://node.example:443''),
            (PStr ''gateways'', PList [PStr ''gateway1'', PStr ''gateway2'']),
            (PStr ''applications'', PList [PStr ''app1'', PStr ''app2'', PStr ''app3'', PStr ''app4''])]"

definition demo_run :: "nat \<Rightarrow> pyval list \<Rightarrow> (py_exc + string) \<times> nat" where
  "demo_run w args =
     (if args ! 4 = PStr ''app2''
      then Inl (Exc CalledProcessError ''Command returned non-zero exit status 1.'')
      else if args ! 4 = PStr ''app1'' then Inr ''stdout of app1''
      else if args ! 4 = PStr ''app4'' then Inr ''stdout of app4''
      else Inr ''Usage: pocketd'',
      Suc w)"

definition demo_json :: "string \<Rightarrow> py_exc + pyval" where
  "demo_json s =
     (if s = ''stdout of app1''
      then Inr (PDict [(PStr ''application'',
             PDict [(PStr ''address'', PStr ''app1''),
                    (PStr ''stake'', PDict [(PStr ''denom'', PStr ''upokt''), (PStr ''amount'', PStr ''2500000'')]),
                    (PStr ''service_configs'', PList [PDict [(PStr ''service_id'', PStr ''anvil'')]])])])
      else if s = ''stdout of app4''
      then Inr (PDict [(PStr ''application'',
             PDict [(PStr ''address'', PStr ''app4''), (PStr ''service_configs'', PList [])])])
      else Inl (Exc ValueError ''Expecting value: line 1 column 1 (char 0)''))"

definition demo_env :: "nat env" where
  "demo_env =
     \<lparr>read_file = (\<lambda>path. if path = ''config.yaml'' then Inr ''text of config.yaml''
                           else Inl (Exc FileNotFoundError ''[Errno 2] No such file or directory'')),
      yaml_safe_load = (\<lambda>raw. Inr (PDict [(PStr ''config'', demo_config)])),
      subprocess_run = demo_run,
      json_loads = demo_json,
      int_max_str_digits = 4300\<rparr>"

definition no_client_env :: "nat env" where
  \<comment> \<open>the same installation on a machine where \<open>pocketd\<close> is not on the path\<close>
  "no_client_env =
     demo_env\<lparr>subprocess_run :=
       (\<lambda>w args. (Inl (Exc FileNotFoundError ''[Errno 2] No such file or directory: pocketd''), Suc w))\<rparr>"

definition env_with_config :: "pyval \<Rightarrow> nat env" where
  \<comment> \<open>the sample installation with another document under the key \<open>config\<close>\<close>
  "env_with_config c = demo_env\<lparr>yaml_safe_load := (\<lambda>raw. Inr (PDict [(PStr ''config'', c)]))\<rparr>"

definition silent_client_env :: "nat env" where
  \<comment> \<open>the sample installation with a client that exits with code 0 and prints no JSON\<close>
  "silent_client_env = demo_env\<lparr>subprocess_run := (\<lambda>w args. (Inr ''Usage: pocketd'', Suc w))\<rparr>"

definition env_with_record :: "pyval \<Rightarrow> nat env" where
  \<comment> \<open>the sample installation with a node that answers every query with the record \<open>rec\<close>\<close>
  "env_with_record rec = demo_env\<lparr>json_loads := (\<lambda>out. Inr (PDict [(PStr ''application'', rec)]))\<rparr>"

definition demo_state :: app_state where
  \<comment> \<open>the fields after \<open>on_mount\<close> on the sample configuration\<close>
  "demo_state =
     \<lparr>config = Some demo_config, rpc = Some (PStr ''https://node.example:443''),
      gateway = Some (PStr ''gateway1''), table = [],
      loading_screen = True, cmd_display = False, exited = False\<rparr>"

section \<open>What a refresh changes\<close>

lemma refresh_table_body_frame:
  "refresh_table_body E app w st = (res, w', st') \<Longrightarrow> st' = st\<lparr>table := table st'\<rparr>"
  by (auto simp: refresh_table_body_def add_row_def split: sum.splits prod.splits bool.splits)

lemma refresh_table_loop_frame:
  "refresh_table_loop E apps w st = (res, w', st') \<Longrightarrow> st' = st\<lparr>table := table st'\<rparr>"
proof (induction apps arbitrary: w st)
  case Nil
  then show ?case by simp
next
  case (Cons app apps)
  obtain r1 w1 st1 where b: "refresh_table_body E app w st = (r1, w1, st1)"
    by (cases "refresh_table_body E app w st") auto
  have f1: "st1 = st\<lparr>table := table st1\<rparr>"
    using refresh_table_body_frame [OF b] .
  show ?case
  proof (cases r1)
    case (Inl e)
    with Cons.prems b f1 show ?thesis by simp
  next
    case (Inr u)
    with Cons.prems b have "refresh_table_loop E apps w1 st1 = (res, w', st')" by simp
    from Cons.IH [OF this] have "st' = st1\<lparr>table := table st'\<rparr>" .
    with f1 show ?thesis
      by (metis app_state.surjective app_state.update_convs(4))
  qed
qed

lemma refresh_table_frame:
  "refresh_table E w st = (res, w', st') \<Longrightarrow> st' = st\<lparr>table := table st'\<rparr>"
  by (auto simp: refresh_table_def Let_def split: sum.splits dest: refresh_table_loop_frame)

lemma refresh_table_body_row:
  "refresh_table_body E app w st = (Inr u, w', st') \<Longrightarrow>
   \<exists>c1 c2 c3. table st' = table st @ [[app, c1, c2, c3]]"
  by (auto simp: refresh_table_body_def add_row_def refresh_table_try_def
      split: sum.splits prod.splits bool.splits if_splits)

lemma refresh_table_loop_rows:
  "refresh_table_loop E apps w st = (Inr u, w', st') \<Longrightarrow>
   \<exists>rows. table st' = table st @ rows \<and> map hd rows = apps \<and> (\<forall>row \<in> set rows. length row = 4)"
proof (induction apps arbitrary: w st)
  case Nil
  then show ?case by simp
next
  case (Cons app apps)
  obtain r1 w1 st1 where b: "refresh_table_body E app w st = (r1, w1, st1)"
    by (cases "refresh_table_body E app w st") auto
  with Cons.prems obtain u1 where r1: "r1 = Inr u1"
    by (cases r1) auto
  from b r1 Cons.prems have l: "refresh_table_loop E apps w1 st1 = (Inr u, w', st')"
    by simp
  from refresh_table_body_row [of E app w st u1 w1 st1] b r1
  obtain c1 c2 c3 where t1: "table st1 = table st @ [[app, c1, c2, c3]]"
    by auto
  from Cons.IH [OF l] obtain rows where
    rows: "table st' = table st1 @ rows" "map hd rows = apps" "\<forall>row \<in> set rows. length row = 4"
    by auto
  have "table st' = table st @ ([app, c1, c2, c3] # rows)"
    using t1 rows(1) by simp
  moreover have "map hd ([app, c1, c2, c3] # rows) = app # apps"
    using rows(2) by simp
  moreover have "\<forall>row \<in> set ([app, c1, c2, c3] # rows). length row = 4"
    using rows(3) by simp
  ultimately show ?case
    by (intro exI [of _ "[app, c1, c2, c3] # rows"] conjI)
qed

lemma query_application_nonzero_exit:
  "subprocess_run E w (query_cmd a r) = (Inl e, w') \<Longrightarrow> exc_kind_of e = CalledProcessError \<Longrightarrow>
   query_application E w a r =
     (Inr (PDict [(PStr ''error'', PStr (''Subprocess failed: '' @ exc_str e))]), w')"
  by (simp add: query_application_def query_application_handler_def)

lemma on_mount_demo: "on_mount demo_env compose = (Inr (), demo_state)"
  by (simp add: on_mount_def demo_env_def load_config_def py_getitem_str_def demo_config_def
      py_getitem_0_def compose_def demo_state_def)

section \<open>The configuration loader\<close>

text \<open>
  C8. \<open>load_config\<close> raises exactly when the file cannot be read, when the YAML parser
  raises, or when the parsed document is not a mapping with the key \<open>config\<close>; when it
  returns, it returns what the document holds under that key.
\<close>

theorem load_config_raises_exactly:
  "((\<exists>e. load_config E path = Inl e) \<longleftrightarrow>
      (\<exists>e. read_file E path = Inl e) \<or>
      (\<exists>raw. read_file E path = Inr raw \<and>
         ((\<exists>e. yaml_safe_load E raw = Inl e) \<or>
          (\<exists>v. yaml_safe_load E raw = Inr v \<and>
             \<not> (\<exists>d c. v = PDict d \<and> dict_get_str d ''config'' = Some c)))))
   \<and> (load_config E path = Inr c \<longleftrightarrow>
      (\<exists>raw d. read_file E path = Inr raw \<and> yaml_safe_load E raw = Inr (PDict d) \<and>
         dict_get_str d ''config'' = Some c))"
  by (auto simp: load_config_def py_getitem_str_def split: sum.splits pyval.splits option.splits)

theorem load_config_raises_exactly_witness:
  "load_config demo_env ''config.yaml'' = Inr demo_config \<and>
   (\<exists>e. load_config demo_env ''other.yaml'' = Inl e)"
proof -
  have "\<exists>raw d. read_file demo_env ''config.yaml'' = Inr raw \<and>
          yaml_safe_load demo_env raw = Inr (PDict d) \<and> dict_get_str d ''config'' = Some demo_config"
    by (simp add: demo_env_def)
  then have ok: "load_config demo_env ''config.yaml'' = Inr demo_config"
    using load_config_raises_exactly [of demo_env "''config.yaml''" demo_config] by blast
  have "\<exists>e. read_file demo_env ''other.yaml'' = Inl e"
    by (simp add: demo_env_def)
  then have "\<exists>e. load_config demo_env ''other.yaml'' = Inl e"
    using load_config_raises_exactly [of demo_env "''other.yaml''" demo_config] by blast
  with ok show ?thesis by blast
qed

section \<open>A client that cannot be started\<close>

text \<open>
  C2. When \<open>subprocess.run\<close> raises anything but \<open>CalledProcessError\<close> (the client is not
  installed, say), \<open>query_application\<close> does not return an error dictionary: its handler
  raises \<open>UnboundLocalError\<close>, and the loop of \<open>refresh_table\<close> ends there with that
  exception, without a row for the address. A run that exits with another code than 0 does
  give the error dictionary (\<open>query_application_nonzero_exit\<close>).
\<close>

theorem query_application_process_error:
  "subprocess_run E w (query_cmd a r) = (Inl e, w') \<Longrightarrow> exc_kind_of e \<noteq> CalledProcessError \<Longrightarrow>
   rpc st = Some r \<Longrightarrow>
   (\<exists>msg. query_application E w a r = (Inl (Exc UnboundLocalError msg), w') \<and>
          refresh_table_loop E (a # rest) w st = (Inl (Exc UnboundLocalError msg), w', st))"
  by (simp add: query_application_def query_application_handler_def refresh_table_body_def get_attr_def)

theorem query_application_process_error_witness:
  "\<exists>msg. query_application no_client_env 0 (PStr ''app1'') (PStr ''https://node.example:443'') =
            (Inl (Exc UnboundLocalError msg), 1) \<and>
         refresh_table_loop no_client_env [PStr ''app1'', PStr ''app2''] 0 demo_state =
            (Inl (Exc UnboundLocalError msg), 1, demo_state)"
  using query_application_process_error [of no_client_env 0 "PStr ''app1''" "PStr ''https://node.example:443''"
      "Exc FileNotFoundError ''[Errno 2] No such file or directory: pocketd''" 1 demo_state "[PStr ''app2'']"]
  by (simp add: no_client_env_def demo_env_def demo_state_def)

section \<open>The rows of a refresh\<close>

text \<open>
  A refresh that returns leaves one row of four cells for each configured address, in
  the configured order, whatever the table held before.
\<close>

theorem refresh_table_rows:
  assumes "config st = Some c" and "py_getitem_str c ''applications'' = Inr (PList apps)"
    and "refresh_table E w st = (Inr u, w', st')"
  shows "length (table st') = length apps \<and> map hd (table st') = apps"
proof -
  from assms have "refresh_table_loop E apps w (st\<lparr>table := []\<rparr>) = (Inr u, w', st')"
    by (simp add: refresh_table_def get_attr_def py_iter_def)
  from refresh_table_loop_rows [OF this] obtain rows where
    "table st' = rows" "map hd rows = apps"
    by auto
  then show ?thesis
    by (metis length_map)
qed

text \<open>
  C1. A refresh does not always return: when the client cannot be started for the first
  address, \<open>refresh_table\<close> raises after it has cleared the table, and the table holds no
  row although the configuration lists at least one address.
\<close>

theorem refresh_table_aborts:
  "config st = Some c \<Longrightarrow> py_getitem_str c ''applications'' = Inr (PList (a # rest)) \<Longrightarrow>
   rpc st = Some r \<Longrightarrow> subprocess_run E w (query_cmd a r) = (Inl e, w') \<Longrightarrow>
   exc_kind_of e \<noteq> CalledProcessError \<Longrightarrow>
   (\<exists>x. refresh_table E w st = (Inl x, w', st\<lparr>table := []\<rparr>))"
  by (simp add: refresh_table_def get_attr_def py_iter_def refresh_table_body_def
      query_application_def query_application_handler_def)

theorem refresh_table_aborts_witness:
  "\<exists>x. refresh_table no_client_env 0 demo_state = (Inl x, 1, demo_state\<lparr>table := []\<rparr>)"
  using refresh_table_aborts [of demo_state demo_config "PStr ''app1''"
      "[PStr ''app2'', PStr ''app3'', PStr ''app4'']" "PStr ''https://node.example:443''" no_client_env 0
      "Exc FileNotFoundError ''[Errno 2] No such file or directory: pocketd''" 1]
  by (simp add: no_client_env_def demo_env_def demo_state_def demo_config_def py_getitem_str_def query_cmd_def)

text \<open>
  The membership test \<open>"error" in data\<close> stands outside the \<open>try\<close>. A node that answers
  with \<open>null\<close> for the application (or with a number or a boolean) ends the refresh with
  a \<open>TypeError\<close> as well.
\<close>

lemma refresh_table_body_no_container:
  assumes "rpc st = Some r" and "query_application E w app r = (Inr data, w')"
    and "data = PNone \<or> (\<exists>b. data = PBool b) \<or> (\<exists>i. data = PInt i) \<or> (\<exists>f. data = PFloat f)"
  shows "\<exists>msg. refresh_table_loop E (app # apps) w st = (Inl (Exc TypeError msg), w', st)"
  using assms by (auto simp: refresh_table_body_def get_attr_def py_contains_str_def)

section \<open>Starting with an incomplete configuration\<close>

lemma on_mount_returns:
  "on_mount E st = (Inr u, st') \<Longrightarrow>
   \<exists>c r gs g. load_config E ''config.yaml'' = Inr c \<and> py_getitem_str c ''rpc_endpoint'' = Inr r \<and>
     py_getitem_str c ''gateways'' = Inr gs \<and> py_getitem_0 gs = Inr g \<and>
     st' = st\<lparr>config := Some c, rpc := Some r, gateway := Some g\<rparr>"
  by (auto simp: on_mount_def Let_def split: sum.splits)

lemma on_mount_raises:
  "load_config E ''config.yaml'' = Inr c \<Longrightarrow> py_getitem_str c ''rpc_endpoint'' = Inl e \<Longrightarrow>
   fst (on_mount E st) = Inl e"
  "load_config E ''config.yaml'' = Inr c \<Longrightarrow> py_getitem_str c ''rpc_endpoint'' = Inr r \<Longrightarrow>
   py_getitem_str c ''gateways'' = Inl e \<Longrightarrow> fst (on_mount E st) = Inl e"
  "load_config E ''config.yaml'' = Inr c \<Longrightarrow> py_getitem_str c ''rpc_endpoint'' = Inr r \<Longrightarrow>
   py_getitem_str c ''gateways'' = Inr gs \<Longrightarrow> py_getitem_0 gs = Inl e \<Longrightarrow> fst (on_mount E st) = Inl e"
  by (simp_all add: on_mount_def Let_def)

lemma boot_on_mount_raises:
  "fst (on_mount E compose) = Inl e \<Longrightarrow> fst (boot E w) = Inl e"
  by (cases "on_mount E compose") (auto simp: boot_def)

lemma boot_no_applications:
  assumes "load_config E ''config.yaml'' = Inr (PDict d)" and "dict_get_str d ''applications'' = None"
  shows "\<exists>e. fst (boot E w) = Inl e"
proof (cases "on_mount E compose")
  case (Pair res st)
  show ?thesis
  proof (cases res)
    case (Inl e)
    with Pair show ?thesis by (simp add: boot_def)
  next
    case (Inr u)
    with Pair on_mount_returns [of E compose u st] assms(1)
    have "config st = Some (PDict d)" by auto
    with Pair Inr assms(2) show ?thesis
      by (simp add: boot_def finish_boot_def refresh_table_def get_attr_def py_getitem_str_def)
  qed
qed

text \<open>
  C10. \<open>load_config\<close> does not look inside the document under \<open>config\<close>. When that
  document is a mapping without \<open>rpc_endpoint\<close> or without \<open>gateways\<close>, or with an empty
  list of gateways, \<open>on_mount\<close> raises \<open>KeyError\<close> or \<open>IndexError\<close>; when only
  \<open>applications\<close> is missing, the first refresh, which \<open>on_mount\<close> schedules, raises
  \<open>KeyError\<close>. Nothing in the program catches these.
\<close>

theorem boot_raises_on_incomplete_config:
  assumes "load_config E ''config.yaml'' = Inr (PDict d)"
  shows "(dict_get_str d ''rpc_endpoint'' = None \<longrightarrow>
            fst (boot E w) = Inl (Exc KeyError (quoted ''rpc_endpoint''))) \<and>
         (dict_get_str d ''rpc_endpoint'' \<noteq> None \<and> dict_get_str d ''gateways'' = None \<longrightarrow>
            fst (boot E w) = Inl (Exc KeyError (quoted ''gateways''))) \<and>
         (dict_get_str d ''rpc_endpoint'' \<noteq> None \<and> dict_get_str d ''gateways'' = Some (PList []) \<longrightarrow>
            fst (boot E w) = Inl (Exc IndexError ''list index out of range'')) \<and>
         (dict_get_str d ''rpc_endpoint'' \<noteq> None \<and> dict_get_str d ''gateways'' = Some (PList (g # gs)) \<and>
          dict_get_str d ''applications'' = None \<longrightarrow>
            fst (boot E w) = Inl (Exc KeyError (quoted ''applications''))) \<and>
         (dict_get_str d ''rpc_endpoint'' = None \<or> dict_get_str d ''gateways'' = None \<or>
          dict_get_str d ''gateways'' = Some (PList []) \<or> dict_get_str d ''applications'' = None \<longrightarrow>
            (\<exists>e. fst (boot E w) = Inl e))"
proof (intro conjI impI)
  assume "dict_get_str d ''rpc_endpoint'' = None"
  then show "fst (boot E w) = Inl (Exc KeyError (quoted ''rpc_endpoint''))"
    using assms by (intro boot_on_mount_raises) (simp add: on_mount_def py_getitem_str_def)
next
  assume "dict_get_str d ''rpc_endpoint'' \<noteq> None \<and> dict_get_str d ''gateways'' = None"
  then show "fst (boot E w) = Inl (Exc KeyError (quoted ''gateways''))"
    using assms by (intro boot_on_mount_raises) (auto simp: on_mount_def py_getitem_str_def)
next
  assume "dict_get_str d ''rpc_endpoint'' \<noteq> None \<and> dict_get_str d ''gateways'' = Some (PList [])"
  then show "fst (boot E w) = Inl (Exc IndexError ''list index out of range'')"
    using assms by (intro boot_on_mount_raises) (auto simp: on_mount_def py_getitem_str_def py_getitem_0_def)
next
  assume "dict_get_str d ''rpc_endpoint'' \<noteq> None \<and> dict_get_str d ''gateways'' = Some (PList (g # gs)) \<and>
          dict_get_str d ''applications'' = None"
  then show "fst (boot E w) = Inl (Exc KeyError (quoted ''applications''))"
    using assms
    by (auto simp: boot_def on_mount_def py_getitem_str_def py_getitem_0_def finish_boot_def
        refresh_table_def get_attr_def)
next
  assume a: "dict_get_str d ''rpc_endpoint'' = None \<or> dict_get_str d ''gateways'' = None \<or>
          dict_get_str d ''gateways'' = Some (PList []) \<or> dict_get_str d ''applications'' = None"
  show "\<exists>e. fst (boot E w) = Inl e"
  proof (cases "dict_get_str d ''applications'' = None")
    case True
    with assms show ?thesis by (rule boot_no_applications)
  next
    case False
    with a have "\<exists>e. fst (on_mount E compose) = Inl e"
      using assms by (auto simp: on_mount_def py_getitem_str_def py_getitem_0_def Let_def split: option.splits)
    then obtain e where "fst (on_mount E compose) = Inl e" ..
    then have "fst (boot E w) = Inl e"
      by (rule boot_on_mount_raises)
    then show ?thesis ..
  qed
qed

theorem boot_raises_on_incomplete_config_witness:
  "fst (boot (env_with_config (PDict [(PStr ''gateways'', PList [PStr ''gateway1'']),
                                       (PStr ''applications'', PList [PStr ''app1''])])) 0)
     = Inl (Exc KeyError (quoted ''rpc_endpoint'')) \<and>
   fst (boot (env_with_config (PDict [(PStr ''rpc_endpoint'', PStr ''https://node.example:443''),
                                       (PStr ''applications'', PList [PStr ''app1''])])) 0)
     = Inl (Exc KeyError (quoted ''gateways'')) \<and>
   fst (boot (env_with_config (PDict [(PStr ''rpc_endpoint'', PStr ''https://node.example:443''),
                                       (PStr ''gateways'', PList []),
                                       (PStr ''applications'', PList [PStr ''app1''])])) 0)
     = Inl (Exc IndexError ''list index out of range'') \<and>
   fst (boot (env_with_config (PDict [(PStr ''rpc_endpoint'', PStr ''https://node.example:443''),
                                       (PStr ''gateways'', PList [PStr ''gateway1''])])) 0)
     = Inl (Exc KeyError (quoted ''applications''))"
proof -
  have l: "load_config (env_with_config c) ''config.yaml'' = Inr c" for c
    by (simp add: load_config_def env_with_config_def demo_env_def py_getitem_str_def)
  show ?thesis
    using boot_raises_on_incomplete_config [OF l, of _ 0 "PStr ''gateway1''" "[]"]
    by simp
qed

section \<open>The sample installation, run\<close>

lemma int_2500000: "py_int 4300 (PStr ''2500000'') = Inr 2500000"
  by (simp add: py_int_def int_of_str_def int_isspace_def is_digit_def digits_value_def digit_val_def Let_def)

lemma stake_2500000:
  "int_true_div 2500000 1000000 = Inr (Fin False 5629499534213120 (- 51))"
  by (simp add: int_true_div_def nearest_binary64_def bit_length.simps rne_div_def Let_def)

lemma round_2500000:
  "float_round2 (Fin False 5629499534213120 (- 51)) = Inr (Fin False 5629499534213120 (- 51))"
  by (simp add: float_round2_def hundredths_def nearest_binary64_def bit_length.simps rne_div_def Let_def)

lemma format_2500000:
  "format_2f (Fin False 5629499534213120 (- 51)) = ''2.50''"
  by (simp add: format_2f_def hundredths_def rne_div_def dec_of_nat.simps two_digits_def digit_char_def Let_def)

lemma query_demo:
  "query_application demo_env w (PStr ''app1'') r =
     (Inr (PDict [(PStr ''address'', PStr ''app1''),
                  (PStr ''stake'', PDict [(PStr ''denom'', PStr ''upokt''), (PStr ''amount'', PStr ''2500000'')]),
                  (PStr ''service_configs'', PList [PDict [(PStr ''service_id'', PStr ''anvil'')]])]), Suc w)"
  "query_application demo_env w (PStr ''app2'') r =
     (Inr (PDict [(PStr ''error'', PStr ''Subprocess failed: Command returned non-zero exit status 1.'')]), Suc w)"
  "query_application demo_env w (PStr ''app3'') r =
     (Inr (PDict [(PStr ''error'', PStr ''Parse failure'')]), Suc w)"
  "query_application demo_env w (PStr ''app4'') r =
     (Inr (PDict [(PStr ''address'', PStr ''app4''), (PStr ''service_configs'', PList [])]), Suc w)"
  by (simp_all add: query_application_def query_cmd_def query_application_handler_def
      demo_env_def demo_run_def demo_json_def py_getitem_str_def)

lemma refresh_demo:
  "refresh_table demo_env w (demo_state\<lparr>table := t\<rparr>) =
     (Inr (), w + 4,
      demo_state\<lparr>table :=
        [[PStr ''app1'', PStr ''2.50'', PStr ''anvil'', PStr ''gateway1''],
         [PStr ''app2'', PStr ''Error'', PStr ''-'', PStr ''-''],
         [PStr ''app3'', PStr ''Error'', PStr ''-'', PStr ''-''],
         [PStr ''app4'', PStr (''ParseErr: '' @ quoted ''stake''), PStr ''-'', PStr ''-'']]\<rparr>)"
proof -
  have max_digits: "int_max_str_digits demo_env = 4300"
    by (simp add: demo_env_def)
  show ?thesis
    by (simp add: refresh_table_def refresh_table_body_def demo_state_def get_attr_def query_demo
      demo_config_def py_iter_def py_getitem_str_def py_contains_str_def max_digits
      refresh_table_try_def int_2500000 stake_2500000 round_2500000 format_2500000
      py_truthy_def py_getitem_0_def add_row_def)
qed

theorem refresh_table_rows_witness:
  "length (table (snd (snd (refresh_table demo_env 0 demo_state)))) = 4 \<and>
   map hd (table (snd (snd (refresh_table demo_env 0 demo_state)))) =
     [PStr ''app1'', PStr ''app2'', PStr ''app3'', PStr ''app4'']"
proof -
  obtain st' where r: "refresh_table demo_env 0 demo_state = (Inr (), 4, st')"
    using refresh_demo [of 0 "[]"] by (simp add: demo_state_def)
  have c: "config demo_state = Some demo_config"
    by (simp add: demo_state_def)
  have a: "py_getitem_str demo_config ''applications'' =
      Inr (PList [PStr ''app1'', PStr ''app2'', PStr ''app3'', PStr ''app4''])"
    by (simp add: demo_config_def py_getitem_str_def)
  from refresh_table_rows [OF c a r] show ?thesis
    by (simp add: r)
qed

section \<open>Rows for failures\<close>

text \<open>
  C5. When the query returns a dictionary with the key \<open>error\<close>, the round of the loop
  for that address returns and appends the row of the address, \<open>Error\<close>, \<open>-\<close> and \<open>-\<close>.
\<close>

theorem error_indicator_row:
  "rpc st = Some r \<Longrightarrow> query_application E w app r = (Inr (PDict d), w') \<Longrightarrow>
   dict_get_str d ''error'' = Some x \<Longrightarrow>
   refresh_table_body E app w st =
     (Inr (), w', st\<lparr>table := table st @ [[app, PStr ''Error'', PStr ''-'', PStr ''-'']]\<rparr>)"
  by (simp add: refresh_table_body_def get_attr_def py_contains_str_def add_row_def)

theorem error_indicator_row_witness:
  "refresh_table_body demo_env (PStr ''app2'') 0 demo_state =
     (Inr (), 1, demo_state\<lparr>table := [[PStr ''app2'', PStr ''Error'', PStr ''-'', PStr ''-'']]\<rparr>)"
  using error_indicator_row [of demo_state "PStr ''https://node.example:443''" demo_env 0 "PStr ''app2''"
      "[(PStr ''error'', PStr ''Subprocess failed: Command returned non-zero exit status 1.'')]" 1
      "PStr ''Subprocess failed: Command returned non-zero exit status 1.''"]
  by (simp add: query_demo demo_state_def)



section \<open>The table after a refresh\<close>

text \<open>
  C9. \<open>refresh_table\<close> clears the table before it reads anything, so its outcome and the
  table it leaves are the same whatever the table held before; the table after a second
  refresh is the one that refresh alone would have produced.
\<close>

theorem refresh_replaces_table:
  "refresh_table E w (st\<lparr>table := t\<rparr>) = refresh_table E w st \<and>
   (refresh_table E w st = (res1, w1, st1) \<longrightarrow> refresh_table E w1 st1 = refresh_table E w1 st)"
proof
  show first: "refresh_table E w (st\<lparr>table := t\<rparr>) = refresh_table E w st" for w t
    by (simp add: refresh_table_def)
  show "refresh_table E w st = (res1, w1, st1) \<longrightarrow> refresh_table E w1 st1 = refresh_table E w1 st"
  proof
    assume "refresh_table E w st = (res1, w1, st1)"
    then have "st1 = st\<lparr>table := table st1\<rparr>"
      by (rule refresh_table_frame)
    then show "refresh_table E w1 st1 = refresh_table E w1 st"
      using first [of w1 "table st1"] by simp
  qed
qed

theorem refresh_replaces_table_witness:
  "refresh_table demo_env 0 (demo_state\<lparr>table := [[PStr ''app9'', PStr ''7.00'', PStr ''-'', PStr ''gateway1'']]\<rparr>) =
     refresh_table demo_env 0 demo_state \<and>
   (\<exists>st1. refresh_table demo_env 0 demo_state = (Inr (), 4, st1) \<and> length (table st1) = 4 \<and>
      refresh_table demo_env 4 st1 = refresh_table demo_env 4 demo_state \<and>
      table (snd (snd (refresh_table demo_env 4 st1))) = table st1)"
proof -
  let ?rows = "[[PStr ''app1'', PStr ''2.50'', PStr ''anvil'', PStr ''gateway1''],
         [PStr ''app2'', PStr ''Error'', PStr ''-'', PStr ''-''],
         [PStr ''app3'', PStr ''Error'', PStr ''-'', PStr ''-''],
         [PStr ''app4'', PStr (''ParseErr: '' @ quoted ''stake''), PStr ''-'', PStr ''-'']]"
  have r0: "refresh_table demo_env 0 demo_state = (Inr (), 4, demo_state\<lparr>table := ?rows\<rparr>)"
    using refresh_demo [of 0 "[]"] by (simp add: demo_state_def)
  have "refresh_table demo_env 4 (demo_state\<lparr>table := ?rows\<rparr>) = refresh_table demo_env 4 demo_state"
    using refresh_replaces_table [where E = demo_env and w = 0 and st = demo_state and ?res1.0 = "Inr ()"
        and ?w1.0 = 4 and ?st1.0 = "demo_state\<lparr>table := ?rows\<rparr>"] r0
    by simp
  moreover have "refresh_table demo_env 0 (demo_state\<lparr>table := [[PStr ''app9'', PStr ''7.00'', PStr ''-'', PStr ''gateway1'']]\<rparr>) =
     refresh_table demo_env 0 demo_state"
    using refresh_replaces_table [where E = demo_env and w = 0 and st = demo_state] by simp
  moreover have "table (snd (snd (refresh_table demo_env 4 (demo_state\<lparr>table := ?rows\<rparr>)))) = ?rows"
    by (simp add: refresh_demo)
  ultimately show ?thesis
    using r0 by simp
qed

section \<open>Two placeholders for three kinds of failure\<close>

lemma query_application_handler_bound:
  "\<exists>x. query_application_handler e True = Inr (PDict [(PStr ''error'', x)])"
  by (simp add: query_application_handler_def)

lemma query_application_parse_failure:
  assumes "subprocess_run E w (query_cmd a r) = (Inr out, w')"
    and "(\<exists>e. json_loads E out = Inl e) \<or>
         (\<exists>v e. json_loads E out = Inr v \<and> py_getitem_str v ''application'' = Inl e)"
  shows "\<exists>x. query_application E w a r = (Inr (PDict [(PStr ''error'', x)]), w')"
proof -
  from assms(2) obtain e where "query_application E w a r = (query_application_handler e True, w')"
    using assms(1) by (auto simp: query_application_def)
  with query_application_handler_bound [of e] show ?thesis by auto
qed

text \<open>
  C3. The rows tell two kinds of failure apart, not three. A client that exits with
  another code than 0 and a client whose output is not the expected JSON both leave the
  row of \<open>Error\<close>, \<open>-\<close> and \<open>-\<close>; an exception of the \<open>try\<close> body leaves a row that
  starts with \<open>ParseErr: \<close>, which is not the \<open>Error\<close> row.
\<close>

theorem failure_placeholders:
  assumes "rpc st = Some r"
  shows "((\<exists>e. subprocess_run E w (query_cmd app r) = (Inl e, w') \<and> exc_kind_of e = CalledProcessError) \<or>
          (\<exists>out. subprocess_run E w (query_cmd app r) = (Inr out, w') \<and>
             ((\<exists>e. json_loads E out = Inl e) \<or>
              (\<exists>v e. json_loads E out = Inr v \<and> py_getitem_str v ''application'' = Inl e)))
          \<longrightarrow> refresh_table_body E app w st =
                (Inr (), w', st\<lparr>table := table st @ [[app, PStr ''Error'', PStr ''-'', PStr ''-'']]\<rparr>))
       \<and> (\<forall>data e. query_application E w app r = (Inr data, w') \<and>
              py_contains_str ''error'' data = Inr False \<and> refresh_table_try E st app data = Inl e
          \<longrightarrow> refresh_table_body E app w st =
                (Inr (), w', st\<lparr>table := table st @
                   [[app, PStr (''ParseErr: '' @ exc_str e), PStr ''-'', PStr ''-'']]\<rparr>)
              \<and> [app, PStr (''ParseErr: '' @ exc_str e), PStr ''-'', PStr ''-'']
                  \<noteq> [app, PStr ''Error'', PStr ''-'', PStr ''-''])"
proof (rule conjI)
  show "(\<exists>e. subprocess_run E w (query_cmd app r) = (Inl e, w') \<and> exc_kind_of e = CalledProcessError) \<or>
          (\<exists>out. subprocess_run E w (query_cmd app r) = (Inr out, w') \<and>
             ((\<exists>e. json_loads E out = Inl e) \<or>
              (\<exists>v e. json_loads E out = Inr v \<and> py_getitem_str v ''application'' = Inl e)))
          \<longrightarrow> refresh_table_body E app w st =
                (Inr (), w', st\<lparr>table := table st @ [[app, PStr ''Error'', PStr ''-'', PStr ''-'']]\<rparr>)"
  proof
  assume "(\<exists>e. subprocess_run E w (query_cmd app r) = (Inl e, w') \<and> exc_kind_of e = CalledProcessError) \<or>
          (\<exists>out. subprocess_run E w (query_cmd app r) = (Inr out, w') \<and>
             ((\<exists>e. json_loads E out = Inl e) \<or>
              (\<exists>v e. json_loads E out = Inr v \<and> py_getitem_str v ''application'' = Inl e)))"
  then have "\<exists>x. query_application E w app r = (Inr (PDict [(PStr ''error'', x)]), w')"
  proof
    assume "\<exists>e. subprocess_run E w (query_cmd app r) = (Inl e, w') \<and> exc_kind_of e = CalledProcessError"
    then obtain e where "subprocess_run E w (query_cmd app r) = (Inl e, w')"
      and "exc_kind_of e = CalledProcessError" by auto
    from query_application_nonzero_exit [OF this] show ?thesis by simp
  next
    assume "\<exists>out. subprocess_run E w (query_cmd app r) = (Inr out, w') \<and>
             ((\<exists>e. json_loads E out = Inl e) \<or>
              (\<exists>v e. json_loads E out = Inr v \<and> py_getitem_str v ''application'' = Inl e))"
    then obtain out where "subprocess_run E w (query_cmd app r) = (Inr out, w')"
      and "(\<exists>e. json_loads E out = Inl e) \<or>
           (\<exists>v e. json_loads E out = Inr v \<and> py_getitem_str v ''application'' = Inl e)" by auto
    then show ?thesis by (rule query_application_parse_failure)
  qed
  then show "refresh_table_body E app w st =
      (Inr (), w', st\<lparr>table := table st @ [[app, PStr ''Error'', PStr ''-'', PStr ''-'']]\<rparr>)"
    using assms
    by (auto simp: refresh_table_body_def get_attr_def py_contains_str_def add_row_def)
  qed
next
  show "\<forall>data e. query_application E w app r = (Inr data, w') \<and>
              py_contains_str ''error'' data = Inr False \<and> refresh_table_try E st app data = Inl e
          \<longrightarrow> refresh_table_body E app w st =
                (Inr (), w', st\<lparr>table := table st @
                   [[app, PStr (''ParseErr: '' @ exc_str e), PStr ''-'', PStr ''-'']]\<rparr>)
              \<and> [app, PStr (''ParseErr: '' @ exc_str e), PStr ''-'', PStr ''-'']
                  \<noteq> [app, PStr ''Error'', PStr ''-'', PStr ''-'']"
    using assms
    by (simp add: refresh_table_body_def get_attr_def add_row_def)
qed

theorem failure_placeholders_witness:
  "refresh_table_body demo_env (PStr ''app2'') 0 demo_state =
     (Inr (), 1, demo_state\<lparr>table := [[PStr ''app2'', PStr ''Error'', PStr ''-'', PStr ''-'']]\<rparr>) \<and>
   refresh_table_body demo_env (PStr ''app3'') 0 demo_state =
     (Inr (), 1, demo_state\<lparr>table := [[PStr ''app3'', PStr ''Error'', PStr ''-'', PStr ''-'']]\<rparr>) \<and>
   refresh_table_body demo_env (PStr ''app4'') 0 demo_state =
     (Inr (), 1, demo_state\<lparr>table :=
        [[PStr ''app4'', PStr (''ParseErr: '' @ quoted ''stake''), PStr ''-'', PStr ''-'']]\<rparr>)"
proof -
  let ?r = "PStr ''https://node.example:443''"
  have r: "rpc demo_state = Some ?r"
    by (simp add: demo_state_def)
  have t: "table demo_state = []"
    by (simp add: demo_state_def)
  have a2: "\<exists>e. subprocess_run demo_env 0 (query_cmd (PStr ''app2'') ?r) = (Inl e, 1) \<and>
      exc_kind_of e = CalledProcessError"
    by (simp add: demo_env_def demo_run_def query_cmd_def)
  have a3: "\<exists>out. subprocess_run demo_env 0 (query_cmd (PStr ''app3'') ?r) = (Inr out, 1) \<and>
      ((\<exists>e. json_loads demo_env out = Inl e) \<or>
       (\<exists>v e. json_loads demo_env out = Inr v \<and> py_getitem_str v ''application'' = Inl e))"
    by (simp add: demo_env_def demo_run_def query_cmd_def demo_json_def)
  have a4: "query_application demo_env 0 (PStr ''app4'') ?r =
        (Inr (PDict [(PStr ''address'', PStr ''app4''), (PStr ''service_configs'', PList [])]), 1) \<and>
      py_contains_str ''error'' (PDict [(PStr ''address'', PStr ''app4''), (PStr ''service_configs'', PList [])])
        = Inr False \<and>
      refresh_table_try demo_env demo_state (PStr ''app4'')
        (PDict [(PStr ''address'', PStr ''app4''), (PStr ''service_configs'', PList [])])
        = Inl (Exc KeyError (quoted ''stake''))"
    by (simp add: query_demo py_contains_str_def refresh_table_try_def py_getitem_str_def)
  have b2: "refresh_table_body demo_env (PStr ''app2'') 0 demo_state =
     (Inr (), 1, demo_state\<lparr>table := [[PStr ''app2'', PStr ''Error'', PStr ''-'', PStr ''-'']]\<rparr>)"
    using failure_placeholders [OF r, of demo_env 0 "PStr ''app2''" 1, THEN conjunct1, THEN mp, OF disjI1, OF a2]
    by (simp only: t append_Nil)
  have b3: "refresh_table_body demo_env (PStr ''app3'') 0 demo_state =
     (Inr (), 1, demo_state\<lparr>table := [[PStr ''app3'', PStr ''Error'', PStr ''-'', PStr ''-'']]\<rparr>)"
    using failure_placeholders [OF r, of demo_env 0 "PStr ''app3''" 1, THEN conjunct1, THEN mp, OF disjI2, OF a3]
    by (simp only: t append_Nil)
  have b4: "refresh_table_body demo_env (PStr ''app4'') 0 demo_state =
     (Inr (), 1, demo_state\<lparr>table :=
        [[PStr ''app4'', PStr (''ParseErr: '' @ quoted ''stake''), PStr ''-'', PStr ''-'']]\<rparr>)"
    using failure_placeholders [OF r, of demo_env 0 "PStr ''app4''" 1, THEN conjunct2, THEN spec, THEN spec,
        THEN mp, OF a4, THEN conjunct1]
    by (simp only: t append_Nil exc_str.simps)
  from b2 b3 b4 show ?thesis by (intro conjI)
qed

text \<open>
  The same address in two installations: in the first the client exits with code 1, in
  the second it exits with code 0 and prints no JSON. The round of the loop has the same
  outcome and leaves the same table in both.
\<close>

lemma query_silent:
  "query_application silent_client_env w a r = (Inr (PDict [(PStr ''error'', PStr ''Parse failure'')]), Suc w)"
  by (simp add: query_application_def query_application_handler_def silent_client_env_def demo_env_def
      demo_json_def)

theorem failure_kinds_share_a_row:
  "(\<exists>e. subprocess_run demo_env 0 (query_cmd (PStr ''app2'') (PStr ''https://node.example:443'')) = (Inl e, 1)
        \<and> exc_kind_of e = CalledProcessError) \<and>
   (\<exists>out e. subprocess_run silent_client_env 0 (query_cmd (PStr ''app2'') (PStr ''https://node.example:443''))
        = (Inr out, 1) \<and> json_loads silent_client_env out = Inl e) \<and>
   refresh_table_body demo_env (PStr ''app2'') 0 demo_state =
   refresh_table_body silent_client_env (PStr ''app2'') 0 demo_state"
proof (intro conjI)
  show "\<exists>e. subprocess_run demo_env 0 (query_cmd (PStr ''app2'') (PStr ''https://node.example:443'')) = (Inl e, 1)
        \<and> exc_kind_of e = CalledProcessError"
    by (simp add: demo_env_def demo_run_def query_cmd_def)
  show "\<exists>out e. subprocess_run silent_client_env 0 (query_cmd (PStr ''app2'') (PStr ''https://node.example:443''))
        = (Inr out, 1) \<and> json_loads silent_client_env out = Inl e"
    by (simp add: silent_client_env_def demo_env_def demo_json_def)
  show "refresh_table_body demo_env (PStr ''app2'') 0 demo_state =
      refresh_table_body silent_client_env (PStr ''app2'') 0 demo_state"
    by (simp add: refresh_table_body_def query_demo query_silent py_contains_str_def get_attr_def demo_state_def)
qed

section \<open>The command line\<close>

lemma py_strip_parts:
  "\<exists>a b. s = a @ py_strip s @ b \<and> list_all py_isspace a \<and> list_all py_isspace b"
proof -
  let ?s1 = "dropWhile py_isspace s"
  have "rev (takeWhile py_isspace (rev ?s1) @ dropWhile py_isspace (rev ?s1)) = rev (rev ?s1)"
    by (simp only: takeWhile_dropWhile_id)
  then have "rev (dropWhile py_isspace (rev ?s1)) @ rev (takeWhile py_isspace (rev ?s1)) = ?s1"
    by (simp only: rev_append rev_rev_ident)
  then have "?s1 = py_strip s @ rev (takeWhile py_isspace (rev ?s1))"
    by (simp only: py_strip_def)
  then have "s = takeWhile py_isspace s @ py_strip s @ rev (takeWhile py_isspace (rev ?s1))"
    by (metis takeWhile_dropWhile_id)
  moreover have "list_all py_isspace (takeWhile py_isspace s)"
    by (simp add: list_all_iff) (meson set_takeWhileD)
  moreover have "list_all py_isspace (rev (takeWhile py_isspace (rev ?s1)))"
    by (simp add: list_all_iff) (meson set_takeWhileD)
  ultimately show ?thesis by blast
qed

lemma py_strip_padded:
  assumes "list_all py_isspace a" and "list_all py_isspace b"
    and "m \<noteq> []" and "\<not> py_isspace (hd m)" and "\<not> py_isspace (last m)"
  shows "py_strip (a @ m @ b) = m"
proof -
  have 1: "dropWhile py_isspace (a @ m @ b) = m @ b"
    using assms(1,3,4) by (cases m) (auto simp: list_all_iff dropWhile_append)
  have "dropWhile py_isspace (rev b @ rev m) = rev m"
    using assms(2,3,5) by (cases m rule: rev_cases) (auto simp: list_all_iff dropWhile_append)
  with 1 show ?thesis
    by (simp add: py_strip_def)
qed

lemma py_strip_ends:
  assumes "py_strip s \<noteq> []"
  shows "\<not> py_isspace (hd (py_strip s)) \<and> \<not> py_isspace (last (py_strip s))"
proof -
  let ?s1 = "dropWhile py_isspace s"
  let ?t = "dropWhile py_isspace (rev ?s1)"
  have t: "?t \<noteq> []" using assms by (simp add: py_strip_def)
  then have "\<not> py_isspace (hd ?t)"
    by (rule hd_dropWhile)
  then have l: "\<not> py_isspace (last (py_strip s))"
    using t by (simp add: py_strip_def last_rev)
  have s1: "?s1 \<noteq> []"
  proof
    assume a: "?s1 = []"
    have "?t = dropWhile py_isspace (rev [])"
      by (simp only: a)
    then have "?t = []" by simp
    with t show False ..
  qed
  then have h1: "\<not> py_isspace (hd ?s1)"
    by (rule hd_dropWhile)
  have "rev (takeWhile py_isspace (rev ?s1) @ ?t) = rev (rev ?s1)"
    by (simp only: takeWhile_dropWhile_id)
  then have "rev ?t @ rev (takeWhile py_isspace (rev ?s1)) = ?s1"
    by (simp only: rev_append rev_rev_ident)
  then have "?s1 = py_strip s @ rev (takeWhile py_isspace (rev ?s1))"
    by (simp only: py_strip_def)
  then have "hd ?s1 = hd (py_strip s)"
    using assms by (metis hd_append2)
  with h1 l show ?thesis by simp
qed

lemma py_strip_eq_q:
  "py_strip s = ''q'' \<longleftrightarrow> (\<exists>a b. s = a @ ''q'' @ b \<and> list_all py_isspace a \<and> list_all py_isspace b)"
proof
  assume "py_strip s = ''q''"
  with py_strip_parts [of s] show "\<exists>a b. s = a @ ''q'' @ b \<and> list_all py_isspace a \<and> list_all py_isspace b"
    by simp
next
  assume "\<exists>a b. s = a @ ''q'' @ b \<and> list_all py_isspace a \<and> list_all py_isspace b"
  then obtain a b where "s = a @ ''q'' @ b" "list_all py_isspace a" "list_all py_isspace b"
    by blast
  moreover have "\<not> py_isspace CHR ''q''"
    by (simp add: py_isspace_def)
  ultimately show "py_strip s = ''q''"
    using py_strip_padded [of a b "''q''"] by simp
qed

text \<open>
  C7. Submitting a text hides the command input. The application exits exactly when the
  text is \<open>q\<close> between two runs of whitespace (either may be empty), which is when the
  text without its leading and trailing whitespace is \<open>q\<close>. For any other text, the empty
  one too, nothing but the hidden input changes.
\<close>

theorem on_input_submitted_quit:
  "on_input_submitted text st =
     st\<lparr>cmd_display := False,
        exited := exited st \<or> (\<exists>a b. text = a @ ''q'' @ b \<and> list_all py_isspace a \<and> list_all py_isspace b)\<rparr>
   \<and> (\<exists>a b. text = a @ py_strip text @ b \<and> list_all py_isspace a \<and> list_all py_isspace b)
   \<and> (py_strip text = [] \<or>
       \<not> (py_isspace (hd (py_strip text)) \<or> py_isspace (last (py_strip text))))"
proof (intro conjI)
  show "on_input_submitted text st =
     st\<lparr>cmd_display := False,
        exited := exited st \<or> (\<exists>a b. text = a @ ''q'' @ b \<and> list_all py_isspace a \<and> list_all py_isspace b)\<rparr>"
  proof -
    have "on_input_submitted text st =
        st\<lparr>cmd_display := False, exited := exited st \<or> py_strip text = ''q''\<rparr>"
      by (simp add: on_input_submitted_def Let_def)
    then show ?thesis
      by (simp only: py_strip_eq_q)
  qed
  show "\<exists>a b. text = a @ py_strip text @ b \<and> list_all py_isspace a \<and> list_all py_isspace b"
    by (rule py_strip_parts)
  show "py_strip text = [] \<or> \<not> (py_isspace (hd (py_strip text)) \<or> py_isspace (last (py_strip text)))"
    using py_strip_ends [of "text"] by blast
qed

theorem on_input_submitted_quit_witness:
  "on_input_submitted '' q  '' demo_state = demo_state\<lparr>cmd_display := False, exited := True\<rparr> \<and>
   on_input_submitted [] (action_enter_command_mode demo_state) = demo_state \<and>
   on_input_submitted ''quit'' (action_enter_command_mode demo_state) = demo_state"
proof -
  have "'' q  '' = '' '' @ ''q'' @ ''  '' \<and> list_all py_isspace '' '' \<and> list_all py_isspace ''  ''"
    by (simp add: py_isspace_def)
  then have "\<exists>a b. '' q  '' = a @ ''q'' @ b \<and> list_all py_isspace a \<and> list_all py_isspace b"
    by blast
  then have 1: "on_input_submitted '' q  '' demo_state = demo_state\<lparr>cmd_display := False, exited := True\<rparr>"
    using on_input_submitted_quit [of "'' q  ''" demo_state] by simp
  have n1: "\<not> (\<exists>a b. [] = a @ ''q'' @ b \<and> list_all py_isspace a \<and> list_all py_isspace b)"
    by simp
  have "py_strip ''quit'' \<noteq> ''q''"
    by (simp add: py_strip_def py_isspace_def)
  then have n2: "\<not> (\<exists>a b. ''quit'' = a @ ''q'' @ b \<and> list_all py_isspace a \<and> list_all py_isspace b)"
    using py_strip_eq_q [of "''quit''"] by simp
  have 2: "on_input_submitted [] (action_enter_command_mode demo_state) = demo_state"
    using on_input_submitted_quit [of "[]" "action_enter_command_mode demo_state"] n1
    by (simp add: action_enter_command_mode_def demo_state_def)
  have 3: "on_input_submitted ''quit'' (action_enter_command_mode demo_state) = demo_state"
    using on_input_submitted_quit [of "''quit''" "action_enter_command_mode demo_state"] n2
    by (simp add: action_enter_command_mode_def demo_state_def)
  from 1 2 3 show ?thesis by simp
qed

section \<open>The stake column\<close>

text \<open>
  The three float operations of the stake column, followed through their roundings. For
  an amount below \<open>2 ^ 53\<close>, the quotient by 1000000 is within a relative \<open>2 ^ -53\<close> of
  the exact one, which is too little to move it across the middle between two hundredths,
  and the float that \<open>round\<close> returns prints as the hundredth it was made from.
\<close>

lemma bit_length_bounds:
  "0 < n \<Longrightarrow> 2 ^ (bit_length n - 1) \<le> n \<and> n < 2 ^ bit_length n"
proof (induction n rule: bit_length.induct)
  case (1 n)
  show ?case
  proof (cases "n div 2 = 0")
    case True
    with "1.prems" have "n = 1" by presburger
    then show ?thesis by (simp add: bit_length.simps)
  next
    case False
    then have pos: "0 < n div 2" by simp
    from "1.IH" [OF _ pos] "1.prems"
    have ih: "2 ^ (bit_length (n div 2) - 1) \<le> n div 2 \<and> n div 2 < 2 ^ bit_length (n div 2)"
      by simp
    have bl: "bit_length n = Suc (bit_length (n div 2))"
      using "1.prems" by (simp add: bit_length.simps [of n])
    have "0 < bit_length (n div 2)"
      using pos by (simp add: bit_length.simps [of "n div 2"])
    then have e: "bit_length n - 1 = Suc (bit_length (n div 2) - 1)"
      using bl by simp
    have "2 * 2 ^ (bit_length (n div 2) - 1) \<le> 2 * (n div 2)"
      using ih by simp
    also have "\<dots> \<le> n" by simp
    finally have lo: "2 ^ (bit_length n - 1) \<le> n"
      by (simp only: e power_Suc)
    have "n < 2 * (n div 2) + 2" by presburger
    also have "\<dots> \<le> 2 * 2 ^ bit_length (n div 2)"
      using ih by simp
    finally have "n < 2 ^ bit_length n"
      by (simp add: bl)
    with lo show ?thesis ..
  qed
qed

lemma rne_div_near:
  assumes "0 < b"
  shows "\<bar>real (rne_div a b) - real a / real b\<bar> \<le> 1 / 2"
proof -
  let ?d = "a div b" and ?r = "a mod b"
  have a: "real a = real ?d * real b + real ?r"
    by (metis div_mult_mod_eq of_nat_add of_nat_mult)
  have r: "real ?r < real b"
    using assms by simp
  have q: "real a / real b = real ?d + real ?r / real b"
    using assms by (simp add: a field_simps)
  consider "2 * ?r < b" | "b < 2 * ?r" | "2 * ?r = b" by linarith
  then show ?thesis
  proof cases
    case 1
    then have "rne_div a b = ?d" by (simp add: rne_div_def Let_def)
    moreover have "real (2 * ?r) < real b"
      using 1 by (simp only: of_nat_less_iff)
    then have "real ?r / real b < 1 / 2"
      using assms by (simp add: field_simps)
    ultimately show ?thesis using q by simp
  next
    case 2
    then have "rne_div a b = ?d + 1" by (simp add: rne_div_def Let_def)
    moreover have "real b < real (2 * ?r)"
      using 2 by (simp only: of_nat_less_iff)
    then have "1 / 2 < real ?r / real b"
      using assms by (simp add: field_simps)
    moreover have "real ?r / real b < 1"
      using r assms by simp
    ultimately show ?thesis using q by simp
  next
    case 3
    then have "rne_div a b = ?d \<or> rne_div a b = ?d + 1" by (simp add: rne_div_def Let_def)
    moreover have "real (2 * ?r) = real b"
      using 3 by (simp only:)
    then have "real ?r / real b = 1 / 2"
      using assms by (simp add: field_simps)
    ultimately show ?thesis using q by auto
  qed
qed

lemma rne_div_unique:
  assumes "0 < b" and "\<bar>real k - real a / real b\<bar> < 1 / 2"
  shows "rne_div a b = k"
proof -
  have "\<bar>real (rne_div a b) - real a / real b\<bar> \<le> 1 / 2"
    using assms(1) by (rule rne_div_near)
  with assms(2) have "\<bar>real (rne_div a b) - real k\<bar> < 1"
    by linarith
  then have "\<bar>int (rne_div a b) - int k\<bar> < 1"
    by (metis (mono_tags, opaque_lifting) of_int_abs of_int_diff of_int_less_1_iff of_int_of_nat_eq)
  then show ?thesis by linarith
qed

lemma scaled_quotient:
  assumes "0 < q"
  shows "real (p * 2 ^ nat (- s)) / real (q * 2 ^ nat s) = real p / real q * 2 powi (- s)"
proof (cases "0 \<le> s")
  case True
  then have "nat (- s) = 0" by simp
  moreover have "(2::real) powi (- s) = 1 / 2 ^ nat s"
    using True by (simp add: power_int_def field_simps)
  ultimately show ?thesis by simp
next
  case False
  then have "nat s = 0" by simp
  moreover have "(2::real) powi (- s) = 2 ^ nat (- s)"
    using False by (simp add: power_int_def)
  ultimately show ?thesis by simp
qed

lemma bit_length_real:
  assumes "0 < n"
  shows "2 powi (int (bit_length n) - 1) \<le> real n \<and> real n < 2 powi (int (bit_length n))"
proof -
  from bit_length_bounds [OF assms]
  have lo: "2 ^ (bit_length n - 1) \<le> n" and hi: "n < 2 ^ bit_length n" by simp_all
  have pos: "0 < bit_length n"
    using assms by (simp add: bit_length.simps [of n])
  then have "int (bit_length n) - 1 = int (bit_length n - 1)" by simp
  then have "(2::real) powi (int (bit_length n) - 1) = 2 ^ (bit_length n - 1)"
    by (simp only: power_int_of_nat)
  moreover have "real (2 ^ (bit_length n - 1)) \<le> real n"
    using lo by (simp only: of_nat_le_iff)
  moreover have "real n < real (2 ^ bit_length n)"
    using hi by (simp only: of_nat_less_iff)
  ultimately show ?thesis by simp
qed

lemma binary_exponent:
  assumes "0 < p" and "0 < q"
  defines "e0 \<equiv> int (bit_length p) - int (bit_length q)"
  defines "e \<equiv> (if p * 2 ^ nat (- e0) < q * 2 ^ nat e0 then e0 - 1 else e0)"
  shows "2 powi e \<le> real p / real q \<and> real p / real q < 2 powi (e + 1)"
proof -
  define X where "X = real p / real q"
  define bp where "bp = int (bit_length p)"
  define bq where "bq = int (bit_length q)"
  have e0: "e0 = bp - bq"
    by (simp add: e0_def bp_def bq_def)
  from bit_length_real [OF assms(1)]
  have p: "2 powi (bp - 1) \<le> real p" "real p < 2 powi bp"
    unfolding bp_def by blast+
  from bit_length_real [OF assms(2)]
  have q: "2 powi (bq - 1) \<le> real q" "real q < 2 powi bq"
    unfolding bq_def by blast+
  have qpos: "0 < real q" using assms(2) by simp
  have "X < 2 powi bp / 2 powi (bq - 1)"
    unfolding X_def using p(2) q(1) qpos by (intro frac_less) simp_all
  also have "\<dots> = 2 powi (bp - (bq - 1))"
    by (simp add: power_int_diff)
  also have "bp - (bq - 1) = e0 + 1"
    by (simp add: e0)
  finally have hi: "X < 2 powi (e0 + 1)" .
  have "2 powi (bp - 1) / 2 powi bq < X"
    unfolding X_def using p(1) q(2) qpos by (intro frac_less2) simp_all
  moreover have "2 powi (bp - 1) / 2 powi bq = (2::real) powi (bp - 1 - bq)"
    by (simp add: power_int_diff)
  moreover have "bp - 1 - bq = e0 - 1"
    by (simp add: e0)
  ultimately have lo: "2 powi (e0 - 1) < X" by simp
  have "real (p * 2 ^ nat (- e0)) / real (q * 2 ^ nat e0) = X * 2 powi (- e0)"
    unfolding X_def using assms(2) by (rule scaled_quotient)
  moreover have "0 < real (q * 2 ^ nat e0)"
    using assms(2) by simp
  ultimately have "real (p * 2 ^ nat (- e0)) < real (q * 2 ^ nat e0) \<longleftrightarrow> X * 2 powi (- e0) < 1"
    by (metis divide_less_eq_1_pos)
  also have "X * 2 powi (- e0) = X / 2 powi e0"
    by (simp add: power_int_minus divide_inverse)
  also have "X / 2 powi e0 < 1 \<longleftrightarrow> X < 2 powi e0"
    by (simp add: divide_less_eq_1_pos)
  finally have cmp: "p * 2 ^ nat (- e0) < q * 2 ^ nat e0 \<longleftrightarrow> X < 2 powi e0"
    by (simp only: of_nat_less_iff)
  show ?thesis
  proof (cases "p * 2 ^ nat (- e0) < q * 2 ^ nat e0")
    case True
    then have "e = e0 - 1" by (simp add: e_def)
    with True cmp lo show ?thesis by (simp add: X_def)
  next
    case False
    then have "e = e0" by (simp add: e_def)
    with False cmp hi show ?thesis by (simp add: X_def)
  qed
qed

lemma nearest_binary64_normal:
  assumes "0 < p" and "0 < q"
    and lower: "2 powi (- 1022) \<le> real p / real q" and upper: "real p / real q < 2 powi 1023"
  shows "\<exists>m s. nearest_binary64 p q = Some (m, s) \<and> 2 powi (s + 52) \<le> real p / real q \<and>
           \<bar>real m * 2 powi s - real p / real q\<bar> \<le> 2 powi (s - 1)"
proof -
  define X where "X = real p / real q"
  define e0 where "e0 = int (bit_length p) - int (bit_length q)"
  define e where "e = (if p * 2 ^ nat (- e0) < q * 2 ^ nat e0 then e0 - 1 else e0)"
  define s where "s = max e (- 1022) - 52"
  define m where "m = rne_div (p * 2 ^ nat (- s)) (q * 2 ^ nat s)"
  have "2 powi e \<le> X \<and> X < 2 powi (e + 1)"
    unfolding X_def e_def e0_def using assms(1,2) by (rule binary_exponent)
  then have e: "2 powi e \<le> X" "X < 2 powi (e + 1)"
    by blast+
  have l1: "(2::real) powi (- 1022) < 2 powi (e + 1)"
    using lower e(2) unfolding X_def by (rule le_less_trans)
  have "- 1022 < e + 1"
  proof (rule ccontr)
    assume "\<not> - 1022 < e + 1"
    then have "e + 1 \<le> - 1022" by simp
    then have "(2::real) powi (e + 1) \<le> 2 powi (- 1022)"
      by (rule power_int_increasing) simp
    with l1 show False using leD by blast
  qed
  then have s_eq: "s = e - 52" by (simp add: s_def)
  have nb0: "nearest_binary64 p q = (if 971 < s \<or> (s = 971 \<and> 2 ^ 53 \<le> m) then None else Some (m, s))"
    unfolding nearest_binary64_def Let_def m_def s_def e_def e0_def ..
  have l2: "(2::real) powi e < 2 powi 1023"
    using e(1) upper unfolding X_def by (rule le_less_trans)
  have "e < 1023"
  proof (rule ccontr)
    assume "\<not> e < 1023"
    then have "1023 \<le> e" by simp
    then have "(2::real) powi 1023 \<le> 2 powi e"
      by (rule power_int_increasing) simp
    with l2 show False using leD by blast
  qed
  then have s: "s \<le> 970" by (simp add: s_eq)
  have nb: "nearest_binary64 p q = Some (m, s)"
    using s by (simp add: nb0)
  have bpos: "0 < q * 2 ^ nat s" using assms(2) by simp
  have "\<bar>real m - real (p * 2 ^ nat (- s)) / real (q * 2 ^ nat s)\<bar> \<le> 1 / 2"
    unfolding m_def using bpos by (rule rne_div_near)
  then have near: "\<bar>real m - X * 2 powi (- s)\<bar> \<le> 1 / 2"
    by (simp only: scaled_quotient [OF assms(2)] X_def)
  define c where "c = (2::real) powi s"
  have cpos: "0 < c" by (simp add: c_def)
  have cinv: "2 powi (- s) = 1 / c"
    by (simp add: c_def power_int_minus divide_inverse)
  have chalf: "2 powi (s - 1) = c / 2"
    by (simp add: c_def power_int_diff)
  from near have "\<bar>real m - X / c\<bar> \<le> 1 / 2"
    by (simp add: cinv)
  then have "\<bar>real m - X / c\<bar> * c \<le> 1 / 2 * c"
    using cpos by (intro mult_right_mono) simp_all
  moreover have "\<bar>real m - X / c\<bar> * c = \<bar>(real m - X / c) * c\<bar>"
    using cpos by (simp add: abs_mult)
  moreover have "(real m - X / c) * c = real m * c - X"
    using cpos by (simp add: field_simps)
  ultimately have "\<bar>real m * c - X\<bar> \<le> c / 2" by simp
  then have err: "\<bar>real m * 2 powi s - X\<bar> \<le> 2 powi (s - 1)"
    by (simp only: chalf c_def)
  have "2 powi (s + 52) \<le> X"
    using e(1) by (simp add: s_eq)
  with nb err show ?thesis unfolding X_def by blast
qed

lemma hundredths_quotient:
  "real (100 * m * 2 ^ nat e) / real (2 ^ nat (- e)) = 100 * real m * 2 powi e"
  using scaled_quotient [of 1 "100 * m" "- e"] by simp

lemma hundredths_near: "\<bar>real (hundredths m e) - 100 * real m * 2 powi e\<bar> \<le> 1 / 2"
proof -
  have "\<bar>real (hundredths m e) - real (100 * m * 2 ^ nat e) / real (2 ^ nat (- e))\<bar> \<le> 1 / 2"
    unfolding hundredths_def by (rule rne_div_near) simp
  then show ?thesis
    by (simp only: hundredths_quotient)
qed

lemma hundredths_unique:
  assumes "\<bar>real k - 100 * real m * 2 powi e\<bar> < 1 / 2"
  shows "hundredths m e = k"
proof -
  have "\<bar>real k - real (100 * m * 2 ^ nat e) / real (2 ^ nat (- e))\<bar> < 1 / 2"
    using assms by (simp only: hundredths_quotient)
  then show ?thesis
    unfolding hundredths_def by (intro rne_div_unique) simp_all
qed

lemma two_powi_mono: "a \<le> b \<Longrightarrow> (2::real) powi a \<le> 2 powi b"
  using power_int_increasing [of a b "2::real"] by simp

lemma binary64_relative_error:
  assumes "0 < p" and "0 < q"
    and "1 / 2 ^ 20 \<le> real p / real q" and "real p / real q < 2 ^ 53"
  shows "\<exists>m s. nearest_binary64 p q = Some (m, s) \<and>
           \<bar>real m * 2 powi s - real p / real q\<bar> \<le> real p / real q / 2 ^ 53"
proof -
  define X where "X = real p / real q"
  have "(- 1022 :: int) \<le> - 20" by simp
  then have "(2::real) powi (- 1022) \<le> 2 powi (- 20)"
    by (rule two_powi_mono)
  also have "(2::real) powi (- 20) = inverse (2 powi 20)"
    by (rule power_int_minus)
  also have "\<dots> = 1 / 2 ^ 20"
    by (simp add: inverse_eq_divide)
  finally have lower: "2 powi (- 1022) \<le> real p / real q"
    using assms(3) by (rule order_trans)
  have "(53 :: int) \<le> 1023" by simp
  then have "(2::real) powi 53 \<le> 2 powi 1023"
    by (rule two_powi_mono)
  moreover have "(2::real) powi 53 = 2 ^ 53"
    by simp
  ultimately have "(2::real) ^ 53 \<le> 2 powi 1023"
    by (simp only:)
  with assms(4) have upper: "real p / real q < 2 powi 1023"
    by (rule less_le_trans)
  from nearest_binary64_normal [OF assms(1,2) lower upper]
  obtain m s where nb: "nearest_binary64 p q = Some (m, s)"
    and lo: "2 powi (s + 52) \<le> X"
    and err: "\<bar>real m * 2 powi s - X\<bar> \<le> 2 powi (s - 1)"
    unfolding X_def by blast
  have "(2::real) powi (s - 1) = 2 powi (s + 52 - 53)"
    by simp
  also have "\<dots> = 2 powi (s + 52) / 2 powi 53"
    by (rule power_int_diff) simp
  also have "\<dots> = 2 powi (s + 52) / 2 ^ 53"
    by simp
  also have "\<dots> \<le> X / 2 ^ 53"
    using lo by (rule divide_right_mono) simp
  finally have "2 powi (s - 1) \<le> X / 2 ^ 53" .
  with err have "\<bar>real m * 2 powi s - X\<bar> \<le> X / 2 ^ 53"
    by (rule order_trans)
  with nb show ?thesis
    unfolding X_def by blast
qed

lemma nearest_hundredth:
  assumes "0 < n" and "n < 2 ^ 53"
    and "\<bar>y - real n / 10 ^ 6\<bar> \<le> real n / 10 ^ 6 / 2 ^ 53"
    and "\<bar>real k - 100 * y\<bar> \<le> 1 / 2"
  shows "\<bar>int n - 10000 * int k\<bar> \<le> 5000"
proof -
  have "real n / 2 ^ 53 < 1"
    using assms(2) by (simp add: of_nat_less_iff [of n "2 ^ 53", where ?'a = real, simplified])
  then have "100 * (real n / 10 ^ 6 / 2 ^ 53) < 1 / 10 ^ 4"
    by simp
  with assms(3) have "\<bar>100 * y - real n / 10 ^ 4\<bar> < 1 / 10 ^ 4"
    by (simp add: abs_if split: if_splits) 
  with assms(4) have "\<bar>real k - real n / 10 ^ 4\<bar> < 1 / 2 + 1 / 10 ^ 4"
    by linarith
  then have "\<bar>10 ^ 4 * real k - real n\<bar> < 5001"
    by (simp add: abs_if field_simps split: if_splits)
  then have "\<bar>real_of_int (10000 * int k - int n)\<bar> < 5001"
    by simp
  then have "\<bar>10000 * int k - int n\<bar> < 5001"
    by (metis of_int_abs of_int_less_numeral_iff)
  then show ?thesis by linarith
qed

lemma format_after_round:
  assumes "0 < k" and "k < 2 ^ 52"
  shows "\<exists>m s. nearest_binary64 k 100 = Some (m, s) \<and> hundredths m s = k"
proof -
  have "1 \<le> real k"
    using assms(1) by simp
  then have lo: "1 / 2 ^ 20 \<le> real k / real 100"
    by simp
  have k52: "real k < 2 ^ 52"
    using assms(2) by (simp add: of_nat_less_iff [of k "2 ^ 52", where ?'a = real, simplified])
  then have hi: "real k / real 100 < 2 ^ 53"
    by simp
  from binary64_relative_error [OF assms(1) _ lo hi]
  obtain m s where nb: "nearest_binary64 k 100 = Some (m, s)"
    and err: "\<bar>real m * 2 powi s - real k / real 100\<bar> \<le> real k / real 100 / 2 ^ 53"
    by auto
  define y where "y = real m * 2 powi s"
  have "\<bar>y - real k / 100\<bar> \<le> real k / 100 / 2 ^ 53"
    using err by (simp add: y_def)
  moreover have "real k / 100 / 2 ^ 53 < 1 / 200"
    using k52 by simp
  ultimately have "\<bar>y - real k / 100\<bar> < 1 / 200"
    by linarith
  then have "\<bar>real k - 100 * y\<bar> < 1 / 2"
    by (simp add: abs_if split: if_splits)
  then have "\<bar>real k - 100 * real m * 2 powi s\<bar> < 1 / 2"
    by (simp add: y_def mult.assoc)
  then have "hundredths m s = k"
    by (rule hundredths_unique)
  with nb show ?thesis by blast
qed

lemma hundredths_zero: "hundredths 0 0 = 0"
  by (simp add: hundredths_def rne_div_def)

lemma stake_pipeline:
  assumes "n < 2 ^ 53"
  shows "\<exists>q r k. int_true_div (int n) 1000000 = Inr q \<and> float_round2 q = Inr r \<and>
           format_2f r = dec_of_nat (k div 100) @ ''.'' @ two_digits k \<and>
           \<bar>int n - 10000 * int k\<bar> \<le> 5000"
proof (cases "n = 0")
  case True
  have "int_true_div (int 0) 1000000 = Inr (Fin False 0 0)"
    by (simp add: int_true_div_def)
  moreover have "float_round2 (Fin False 0 0) = Inr (Fin False 0 0)"
    by (simp add: float_round2_def hundredths_zero)
  moreover have "format_2f (Fin False 0 0) = dec_of_nat (0 div 100) @ ''.'' @ two_digits 0"
    by (simp add: format_2f_def hundredths_zero)
  ultimately show ?thesis
    using True by (intro exI [of _ "Fin False 0 0"] exI [of _ 0]) simp
next
  case False
  then have npos: "0 < n" by simp
  have "1 \<le> real n"
    using npos by simp
  then have lo: "1 / 2 ^ 20 \<le> real n / real 1000000"
    by simp
  have n53: "real n < 2 ^ 53"
    using assms by (simp add: of_nat_less_iff [of n "2 ^ 53", where ?'a = real, simplified])
  then have hi: "real n / real 1000000 < 2 ^ 53"
    by simp
  from binary64_relative_error [OF npos _ lo hi]
  obtain m s where nb: "nearest_binary64 n 1000000 = Some (m, s)"
    and err: "\<bar>real m * 2 powi s - real n / real 1000000\<bar> \<le> real n / real 1000000 / 2 ^ 53"
    by auto
  have q: "int_true_div (int n) 1000000 = Inr (Fin False m s)"
    using npos nb by (simp add: int_true_div_def)
  define k where "k = hundredths m s"
  define y where "y = real m * 2 powi s"
  have e1: "\<bar>y - real n / 10 ^ 6\<bar> \<le> real n / 10 ^ 6 / 2 ^ 53"
    using err by (simp add: y_def)
  have "\<bar>real k - 100 * real m * 2 powi s\<bar> \<le> 1 / 2"
    unfolding k_def by (rule hundredths_near)
  then have e2: "\<bar>real k - 100 * y\<bar> \<le> 1 / 2"
    by (simp add: y_def mult.assoc)
  from nearest_hundredth [OF npos assms e1 e2]
  have near: "\<bar>int n - 10000 * int k\<bar> \<le> 5000" .
  show ?thesis
  proof (cases "k = 0")
    case True
    then have "float_round2 (Fin False m s) = Inr (Fin False 0 0)"
      by (simp add: float_round2_def k_def)
    moreover have "format_2f (Fin False 0 0) = dec_of_nat (k div 100) @ ''.'' @ two_digits k"
      using True by (simp add: format_2f_def hundredths_zero)
    ultimately show ?thesis
      using q near by blast
  next
    case False
    then have kpos: "0 < k" by simp
    have "10000 * int k \<le> int n + 5000"
      using near by linarith
    moreover have "int n < 2 ^ 53"
      using assms by (simp add: of_nat_less_iff [of n "2 ^ 53", where ?'a = int, simplified])
    ultimately have "int k < 2 ^ 52"
      by simp
    then have "k < 2 ^ 52"
      by (simp add: of_nat_less_iff [of k "2 ^ 52", where ?'a = int, simplified])
    from format_after_round [OF kpos this]
    obtain m' s' where nb': "nearest_binary64 k 100 = Some (m', s')" and h': "hundredths m' s' = k"
      by blast
    have "float_round2 (Fin False m s) = Inr (Fin False m' s')"
      using False nb' by (simp add: float_round2_def k_def [symmetric])
    moreover have "format_2f (Fin False m' s') = dec_of_nat (k div 100) @ ''.'' @ two_digits k"
      by (simp add: format_2f_def h')
    ultimately show ?thesis
      using q near by blast
  qed
qed

lemma is_digit_plain:
  assumes "is_digit c"
  shows "\<not> int_isspace c" and "c \<noteq> CHR ''+''" and "c \<noteq> CHR ''-''" and "c \<noteq> CHR ''_''"
  using assms by (auto simp: is_digit_def int_isspace_def Let_def)

lemma bad_underscores_digits: "list_all is_digit s \<Longrightarrow> \<not> bad_underscores s"
  by (induction s rule: bad_underscores.induct) (auto dest: is_digit_plain(4))

lemma int_of_str_digits:
  assumes "s \<noteq> []" and "list_all is_digit s" and "max_digits = 0 \<or> length s \<le> max_digits"
  shows "int_of_str max_digits s = Inr (int (digits_value s))"
proof -
  from assms(1) obtain c cs where s: "s = c # cs" by (cases s) auto
  with assms(2) have c: "is_digit c" by simp
  have all: "\<forall>x \<in> set s. is_digit x"
    using assms(2) by (simp add: list_all_iff)
  have 1: "dropWhile int_isspace s = s"
    using c is_digit_plain(1) by (simp add: s)
  have hd: "hd s \<noteq> CHR ''+''" "hd s \<noteq> CHR ''-''" "hd s \<noteq> CHR ''_''"
    using c is_digit_plain by (auto simp: s)
  have 2: "takeWhile (\<lambda>c. is_digit c \<or> c = CHR ''_'') s = s"
    using all by (simp add: takeWhile_eq_all_conv)
  have 3: "dropWhile (\<lambda>c. is_digit c \<or> c = CHR ''_'') s = []"
    using all by simp
  have 4: "filter is_digit s = s"
    using all by (simp add: filter_id_conv)
  have 5: "\<not> bad_underscores s"
    using assms(2) by (rule bad_underscores_digits)
  show ?thesis
    using assms(1,3) hd 5 by (auto simp: int_of_str_def Let_def 1 2 3 4)
qed

lemma sample_stake_digits:
  "digits_value ''2500000'' = 2500000" "list_all is_digit ''2500000''"
  "digits_value ''10000000000000004999'' = 10000000000000004999"
  "list_all is_digit ''10000000000000004999''"
  by (simp_all add: digits_value_def digit_val_def is_digit_def)

lemma large_stake_shown:
  "int_true_div 10000000000000004999 1000000 = Inr (Fin False 5120000000000003 (- 9))"
  "float_round2 (Fin False 5120000000000003 (- 9)) = Inr (Fin False 5120000000000005 (- 9))"
  "format_2f (Fin False 5120000000000005 (- 9)) = ''10000000000000.01''"
  by (simp_all add: int_true_div_def nearest_binary64_def bit_length.simps rne_div_def Let_def
      float_round2_def hundredths_def format_2f_def dec_of_nat.simps two_digits_def digit_char_def)

lemma refresh_table_try_well_formed:
  assumes g: "gateway st = Some g"
    and stake: "dict_get_str d ''stake'' = Some (PDict sd)" "dict_get_str sd ''amount'' = Some (PStr s)"
    and digits: "s \<noteq> []" "list_all is_digit s"
      "int_max_str_digits E = 0 \<or> length s \<le> int_max_str_digits E"
    and small: "digits_value s < 2 ^ 53"
    and sc: "dict_get_str d ''service_configs'' = Some (PList scs)"
    and first: "scs = [] \<or> (\<exists>fd sid rest. scs = PDict fd # rest \<and> dict_get_str fd ''service_id'' = Some sid)"
  shows "\<exists>k sv. refresh_table_try E st app (PDict d) =
            Inr [app, PStr (dec_of_nat (k div 100) @ ''.'' @ two_digits k), sv, g] \<and>
          \<bar>int (digits_value s) - 10000 * int k\<bar> \<le> 5000 \<and>
          (scs = [] \<longrightarrow> sv = PStr ''-'') \<and>
          (\<forall>fd sid rest. scs = PDict fd # rest \<and> dict_get_str fd ''service_id'' = Some sid \<longrightarrow> sv = sid)"
proof -
  from stake_pipeline [OF small] obtain q r k where
    q: "int_true_div (int (digits_value s)) 1000000 = Inr q" and r: "float_round2 q = Inr r" and
    f: "format_2f r = dec_of_nat (k div 100) @ ''.'' @ two_digits k" and
    near: "\<bar>int (digits_value s) - 10000 * int k\<bar> \<le> 5000"
    by blast
  have i: "py_int (int_max_str_digits E) (PStr s) = Inr (int (digits_value s))"
    using int_of_str_digits [OF digits] by (simp add: py_int_def)
  define sv where "sv = (case scs of [] \<Rightarrow> PStr ''-'' | x # _ \<Rightarrow>
      (case x of PDict fd \<Rightarrow> (case dict_get_str fd ''service_id'' of Some sid \<Rightarrow> sid | None \<Rightarrow> PNone) | _ \<Rightarrow> PNone))"
  have svc: "(if py_truthy (PList scs)
            then (case py_getitem_0 (PList scs) of
                    Inl e \<Rightarrow> Inl e
                  | Inr first \<Rightarrow> py_getitem_str first ''service_id'')
            else Inr (PStr ''-'')) = Inr sv"
    using first by (auto simp: sv_def py_truthy_def py_getitem_0_def py_getitem_str_def)
  have "refresh_table_try E st app (PDict d) =
            Inr [app, PStr (dec_of_nat (k div 100) @ ''.'' @ two_digits k), sv, g]"
    unfolding refresh_table_try_def
    by (simp add: py_getitem_str_def stake i q r sc svc g get_attr_def f)
  moreover have "scs = [] \<longrightarrow> sv = PStr ''-''"
    by (simp add: sv_def)
  moreover have "\<forall>fd sid rest. scs = PDict fd # rest \<and> dict_get_str fd ''service_id'' = Some sid \<longrightarrow> sv = sid"
    by (simp add: sv_def)
  ultimately show ?thesis
    using near by blast
qed

text \<open>
  C4. In a state whose \<open>rpc\<close> and \<open>gateway\<close> are those \<open>on_mount\<close> set, let the query
  return a dictionary without \<open>error\<close>, whose \<open>stake.amount\<close> is a string of decimal digits
  (no longer than the interpreter allows) for a number below \<open>2 ^ 53\<close>, and whose
  \<open>service_configs\<close> is a list that is empty or starts with a dictionary with a
  \<open>service_id\<close>. Then the round of the loop appends the row of the address, the stake, the
  service and the gateway, where the stake is written with two decimals and is a hundredth
  nearest to the amount divided by 1000000, the service is \<open>-\<close> for the empty list and the
  first \<open>service_id\<close> otherwise, and the gateway is the first item of \<open>gateways\<close> in the
  loaded configuration.
\<close>

theorem well_formed_record_row:
  assumes mount: "on_mount E st0 = (Inr u, st1)"
    and same: "rpc st = rpc st1" "gateway st = gateway st1"
    and r: "rpc st = Some r"
    and q: "query_application E w app r = (Inr (PDict d), w')"
    and noerr: "dict_get_str d ''error'' = None"
    and stake: "dict_get_str d ''stake'' = Some (PDict sd)" "dict_get_str sd ''amount'' = Some (PStr s)"
    and digits: "s \<noteq> []" "list_all is_digit s"
      "int_max_str_digits E = 0 \<or> length s \<le> int_max_str_digits E"
    and small: "digits_value s < 2 ^ 53"
    and sc: "dict_get_str d ''service_configs'' = Some (PList scs)"
    and first: "scs = [] \<or> (\<exists>fd sid rest. scs = PDict fd # rest \<and> dict_get_str fd ''service_id'' = Some sid)"
  shows "\<exists>k sv g c gs.
          refresh_table_body E app w st =
            (Inr (), w', st\<lparr>table := table st @
               [[app, PStr (dec_of_nat (k div 100) @ ''.'' @ two_digits k), sv, g]]\<rparr>) \<and>
          \<bar>int (digits_value s) - 10000 * int k\<bar> \<le> 5000 \<and>
          (scs = [] \<longrightarrow> sv = PStr ''-'') \<and>
          (\<forall>fd sid rest. scs = PDict fd # rest \<and> dict_get_str fd ''service_id'' = Some sid \<longrightarrow> sv = sid) \<and>
          load_config E ''config.yaml'' = Inr c \<and> py_getitem_str c ''gateways'' = Inr gs \<and>
          py_getitem_0 gs = Inr g"
proof -
  from on_mount_returns [OF mount] obtain c r1 gs g where
    c: "load_config E ''config.yaml'' = Inr c" "py_getitem_str c ''gateways'' = Inr gs"
       "py_getitem_0 gs = Inr g" and
    st1: "st1 = st0\<lparr>config := Some c, rpc := Some r1, gateway := Some g\<rparr>"
    by blast
  have g: "gateway st = Some g"
    using same(2) st1 by simp
  from refresh_table_try_well_formed [OF g stake digits small sc first, of app]
  obtain k sv where
    t: "refresh_table_try E st app (PDict d) =
          Inr [app, PStr (dec_of_nat (k div 100) @ ''.'' @ two_digits k), sv, g]" and
    near: "\<bar>int (digits_value s) - 10000 * int k\<bar> \<le> 5000" and
    s1: "scs = [] \<longrightarrow> sv = PStr ''-''" and
    s2: "\<forall>fd sid rest. scs = PDict fd # rest \<and> dict_get_str fd ''service_id'' = Some sid \<longrightarrow> sv = sid"
    by blast
  have "refresh_table_body E app w st =
            (Inr (), w', st\<lparr>table := table st @
               [[app, PStr (dec_of_nat (k div 100) @ ''.'' @ two_digits k), sv, g]]\<rparr>)"
    using r q noerr t by (simp add: refresh_table_body_def get_attr_def py_contains_str_def add_row_def)
  with near s1 s2 c show ?thesis
    by blast
qed

theorem well_formed_record_row_witness:
  "refresh_table_body demo_env (PStr ''app1'') 0 demo_state =
     (Inr (), 1, demo_state\<lparr>table := [[PStr ''app1'', PStr ''2.50'', PStr ''anvil'', PStr ''gateway1'']]\<rparr>)"
proof -
  let ?d = "[(PStr ''address'', PStr ''app1''),
             (PStr ''stake'', PDict [(PStr ''denom'', PStr ''upokt''), (PStr ''amount'', PStr ''2500000'')]),
             (PStr ''service_configs'', PList [PDict [(PStr ''service_id'', PStr ''anvil'')]])]"
  have r: "rpc demo_state = Some (PStr ''https://node.example:443'')"
    by (simp add: demo_state_def)
  have q: "query_application demo_env 0 (PStr ''app1'') (PStr ''https://node.example:443'') = (Inr (PDict ?d), 1)"
    by (simp add: query_demo)
  have noerr: "dict_get_str ?d ''error'' = None" by simp
  have stake: "dict_get_str ?d ''stake'' =
      Some (PDict [(PStr ''denom'', PStr ''upokt''), (PStr ''amount'', PStr ''2500000'')])"
    "dict_get_str [(PStr ''denom'', PStr ''upokt''), (PStr ''amount'', PStr ''2500000'')] ''amount'' =
      Some (PStr ''2500000'')"
    by simp_all
  have digits: "''2500000'' \<noteq> []" "list_all is_digit ''2500000''"
    "int_max_str_digits demo_env = 0 \<or> length ''2500000'' \<le> int_max_str_digits demo_env"
    by (simp_all add: is_digit_def demo_env_def)
  have small: "digits_value ''2500000'' < 2 ^ 53"
    by (simp add: sample_stake_digits)
  have sc: "dict_get_str ?d ''service_configs'' = Some (PList [PDict [(PStr ''service_id'', PStr ''anvil'')]])"
    by simp
  have first: "[PDict [(PStr ''service_id'', PStr ''anvil'')]] = [] \<or>
      (\<exists>fd sid rest. [PDict [(PStr ''service_id'', PStr ''anvil'')]] = PDict fd # rest \<and>
         dict_get_str fd ''service_id'' = Some sid)"
    by simp
  from well_formed_record_row [OF on_mount_demo refl refl r q noerr stake digits small sc first]
  obtain k sv g c gs where
    b: "refresh_table_body demo_env (PStr ''app1'') 0 demo_state =
            (Inr (), 1, demo_state\<lparr>table := table demo_state @
               [[PStr ''app1'', PStr (dec_of_nat (k div 100) @ ''.'' @ two_digits k), sv, g]]\<rparr>)" and
    near: "\<bar>int (digits_value ''2500000'') - 10000 * int k\<bar> \<le> 5000" and
    sv: "\<forall>fd sid rest. [PDict [(PStr ''service_id'', PStr ''anvil'')]] = PDict fd # rest \<and>
           dict_get_str fd ''service_id'' = Some sid \<longrightarrow> sv = sid" and
    c: "load_config demo_env ''config.yaml'' = Inr c" "py_getitem_str c ''gateways'' = Inr gs"
       "py_getitem_0 gs = Inr g"
    by blast
  have "k = 250"
    using near by (simp add: sample_stake_digits)
  then have shown: "dec_of_nat (k div 100) @ ''.'' @ two_digits k = ''2.50''"
    by (simp add: dec_of_nat.simps two_digits_def digit_char_def)
  have "sv = PStr ''anvil''"
    using sv by simp
  moreover have "c = demo_config"
    using c(1) by (simp add: load_config_def demo_env_def py_getitem_str_def)
  then have "g = PStr ''gateway1''"
    using c(2,3) by (auto simp: demo_config_def py_getitem_str_def py_getitem_0_def)
  ultimately show ?thesis
    using b shown by (simp add: demo_state_def)
qed

text \<open>
  At 10000000000000004999 the quotient by 1000000 is 10000000000000.004999, which is
  nearer to 10000000000000.00 than to 10000000000000.01; the floats are too coarse there,
  and the row shows the latter.
\<close>

theorem large_stake_off_by_a_hundredth:
  "refresh_table_body
     (env_with_record (PDict [(PStr ''stake'', PDict [(PStr ''amount'', PStr ''10000000000000004999'')]),
                              (PStr ''service_configs'', PList [])]))
     (PStr ''app1'') 0 demo_state =
     (Inr (), 1, demo_state\<lparr>table := [[PStr ''app1'', PStr ''10000000000000.01'', PStr ''-'', PStr ''gateway1'']]\<rparr>)
   \<and> \<bar>10000000000000004999 - 10000 * (1000000000000000 :: int)\<bar> \<le> 5000
   \<and> \<not> \<bar>10000000000000004999 - 10000 * (1000000000000001 :: int)\<bar> \<le> 5000"
proof -
  let ?rec = "PDict [(PStr ''stake'', PDict [(PStr ''amount'', PStr ''10000000000000004999'')]),
                     (PStr ''service_configs'', PList [])]"
  have q: "query_application (env_with_record ?rec) 0 (PStr ''app1'') r = (Inr ?rec, 1)" for r
    by (simp add: query_application_def env_with_record_def demo_env_def demo_run_def query_cmd_def
        py_getitem_str_def)
  have i: "py_int (int_max_str_digits (env_with_record ?rec)) (PStr ''10000000000000004999'')
      = Inr 10000000000000004999"
    using int_of_str_digits [OF _ sample_stake_digits(4), of 4300]
    by (simp add: py_int_def env_with_record_def demo_env_def sample_stake_digits(3))
  have t: "refresh_table_try (env_with_record ?rec) demo_state (PStr ''app1'') ?rec =
      Inr [PStr ''app1'', PStr ''10000000000000.01'', PStr ''-'', PStr ''gateway1'']"
    unfolding refresh_table_try_def
    by (simp add: py_getitem_str_def i large_stake_shown py_truthy_def get_attr_def demo_state_def)
  have "refresh_table_body (env_with_record ?rec) (PStr ''app1'') 0 demo_state =
     (Inr (), 1, demo_state\<lparr>table := [[PStr ''app1'', PStr ''10000000000000.01'', PStr ''-'', PStr ''gateway1'']]\<rparr>)"
  proof -
    have r: "rpc demo_state = Some (PStr ''https://node.example:443'')"
      and e: "table demo_state = []"
      by (simp_all add: demo_state_def)
    show ?thesis
      by (simp add: refresh_table_body_def r q t py_contains_str_def add_row_def get_attr_def e)
  qed
  then show ?thesis by simp
qed

end
